theory Spec2Isabelle
  imports Complex_Main
begin

section \<open>JavaScript numbers\<close>

text \<open>
  The editor computes with JavaScript numbers. They are modelled with exact real
  arithmetic on the finite values (no rounding, no signed zero), together with the
  non-finite values the source itself writes or tests for (\<^verbatim>\<open>Infinity\<close>,
  \<^verbatim>\<open>-Infinity\<close>, \<^verbatim>\<open>isFinite\<close>) and \<^verbatim>\<open>undefined\<close>, the result of
  reading an array past its end. Every arithmetic operator coerces
  \<^verbatim>\<open>undefined\<close> to \<^verbatim>\<open>NaN\<close>, as JavaScript does.
\<close>

datatype jsnum = Fin real | PosInf | NegInf | NaN | Undefined

text \<open>Unary minus.\<close>

fun jneg :: "jsnum \<Rightarrow> jsnum" where
  "jneg (Fin a) = Fin (- a)"
| "jneg PosInf = NegInf"
| "jneg NegInf = PosInf"
| "jneg _ = NaN"

text \<open>\<^verbatim>\<open>a + b\<close>\<close>

fun jadd :: "jsnum \<Rightarrow> jsnum \<Rightarrow> jsnum" where
  "jadd (Fin a) (Fin b) = Fin (a + b)"
| "jadd PosInf NegInf = NaN"
| "jadd NegInf PosInf = NaN"
| "jadd PosInf (Fin b) = PosInf"
| "jadd PosInf PosInf = PosInf"
| "jadd (Fin a) PosInf = PosInf"
| "jadd NegInf (Fin b) = NegInf"
| "jadd NegInf NegInf = NegInf"
| "jadd (Fin a) NegInf = NegInf"
| "jadd _ _ = NaN"

text \<open>\<^verbatim>\<open>a - b\<close>\<close>

definition jsub :: "jsnum \<Rightarrow> jsnum \<Rightarrow> jsnum" where
  "jsub a b = jadd a (jneg b)"

text \<open>\<^verbatim>\<open>a * b\<close>\<close>

fun jmul :: "jsnum \<Rightarrow> jsnum \<Rightarrow> jsnum" where
  "jmul (Fin a) (Fin b) = Fin (a * b)"
| "jmul (Fin a) PosInf = (if a = 0 then NaN else if 0 < a then PosInf else NegInf)"
| "jmul (Fin a) NegInf = (if a = 0 then NaN else if 0 < a then NegInf else PosInf)"
| "jmul PosInf (Fin b) = (if b = 0 then NaN else if 0 < b then PosInf else NegInf)"
| "jmul NegInf (Fin b) = (if b = 0 then NaN else if 0 < b then NegInf else PosInf)"
| "jmul PosInf PosInf = PosInf"
| "jmul PosInf NegInf = NegInf"
| "jmul NegInf PosInf = NegInf"
| "jmul NegInf NegInf = PosInf"
| "jmul _ _ = NaN"

text \<open>\<^verbatim>\<open>a / b\<close>; a zero divisor is taken as positive zero.\<close>

fun jdiv :: "jsnum \<Rightarrow> jsnum \<Rightarrow> jsnum" where
  "jdiv (Fin a) (Fin b) =
     (if b \<noteq> 0 then Fin (a / b)
      else if a = 0 then NaN else if 0 < a then PosInf else NegInf)"
| "jdiv (Fin a) PosInf = Fin 0"
| "jdiv (Fin a) NegInf = Fin 0"
| "jdiv PosInf (Fin b) = (if 0 \<le> b then PosInf else NegInf)"
| "jdiv NegInf (Fin b) = (if 0 \<le> b then NegInf else PosInf)"
| "jdiv _ _ = NaN"

text \<open>\<^verbatim>\<open>a < b\<close> and \<^verbatim>\<open>a > b\<close>: false as soon as one side is \<^verbatim>\<open>NaN\<close>.\<close>

fun jless :: "jsnum \<Rightarrow> jsnum \<Rightarrow> bool" where
  "jless (Fin a) (Fin b) = (a < b)"
| "jless (Fin a) PosInf = True"
| "jless NegInf (Fin b) = True"
| "jless NegInf PosInf = True"
| "jless _ _ = False"

definition jgreater :: "jsnum \<Rightarrow> jsnum \<Rightarrow> bool" where
  "jgreater a b = jless b a"

text \<open>\<^verbatim>\<open>Math.max(a, b)\<close> and \<^verbatim>\<open>Math.min(a, b)\<close>\<close>

fun Math_max :: "jsnum \<Rightarrow> jsnum \<Rightarrow> jsnum" where
  "Math_max (Fin a) (Fin b) = Fin (max a b)"
| "Math_max PosInf (Fin b) = PosInf"
| "Math_max (Fin a) PosInf = PosInf"
| "Math_max PosInf PosInf = PosInf"
| "Math_max PosInf NegInf = PosInf"
| "Math_max NegInf PosInf = PosInf"
| "Math_max NegInf (Fin b) = Fin b"
| "Math_max (Fin a) NegInf = Fin a"
| "Math_max NegInf NegInf = NegInf"
| "Math_max _ _ = NaN"

fun Math_min :: "jsnum \<Rightarrow> jsnum \<Rightarrow> jsnum" where
  "Math_min (Fin a) (Fin b) = Fin (min a b)"
| "Math_min NegInf (Fin b) = NegInf"
| "Math_min (Fin a) NegInf = NegInf"
| "Math_min NegInf NegInf = NegInf"
| "Math_min PosInf NegInf = NegInf"
| "Math_min NegInf PosInf = NegInf"
| "Math_min PosInf (Fin b) = Fin b"
| "Math_min (Fin a) PosInf = Fin a"
| "Math_min PosInf PosInf = PosInf"
| "Math_min _ _ = NaN"


fun isFinite :: "jsnum \<Rightarrow> bool" where
  "isFinite (Fin a) = True"
| "isFinite _ = False"

text \<open>\<^verbatim>\<open>a % b\<close>: the remainder takes the sign of the dividend.\<close>

fun jmod :: "jsnum \<Rightarrow> jsnum \<Rightarrow> jsnum" where
  "jmod (Fin a) (Fin b) =
     (if b = 0 then NaN
      else Fin (sgn a * (\<bar>a\<bar> - \<bar>b\<bar> * of_int \<lfloor>\<bar>a\<bar> / \<bar>b\<bar>\<rfloor>)))"
| "jmod (Fin a) PosInf = Fin a"
| "jmod (Fin a) NegInf = Fin a"
| "jmod _ _ = NaN"

text \<open>\<^verbatim>\<open>arr[i]\<close>: reading past the end gives \<^verbatim>\<open>undefined\<close>.\<close>

definition nth_js :: "jsnum list \<Rightarrow> nat \<Rightarrow> jsnum" where
  "nth_js arr i = (if i < length arr then arr ! i else Undefined)"


section \<open>Array helpers\<close>

text \<open>
  \<^verbatim>\<open>array.js\<close>, \<^verbatim>\<open>math.js\<close> and \<^verbatim>\<open>utils.js\<close> are imported by the sources but are
  not among them. A coefficient array has the two levels \<^verbatim>\<open>[order][segments]\<close> of
  \<^verbatim>\<open>ZERO_SPLINE\<close> in \<^verbatim>\<open>spline_editor.js\<close>; on such an array \<^verbatim>\<open>c.flat()\<close> and
  \<^verbatim>\<open>c.flat(COEFFICIENTS_DEPTH)\<close> (any depth of at least one) are \<^const>\<open>concat\<close>.
\<close>

text \<open>Modelled from the spec: \<^verbatim>\<open>last_element\<close> of \<^verbatim>\<open>utils.js\<close> is missing; it reads
  the last element (\<open>end\<close> is the last knot).\<close>

definition last_element :: "jsnum list \<Rightarrow> jsnum" where
  "last_element arr = (if arr = [] then Undefined else last arr)"

text \<open>Modelled from the spec: \<^verbatim>\<open>multiply_scalar\<close> of \<^verbatim>\<open>array.js\<close> is missing; scale
  and stretch multiply every ordinate, respectively every knot, by the factor.\<close>

definition multiply_scalar :: "jsnum \<Rightarrow> jsnum list \<Rightarrow> jsnum list" where
  "multiply_scalar factor arr = map (\<lambda>v. jmul factor v) arr"

text \<open>Modelled from the spec: \<^verbatim>\<open>array_min\<close> and \<^verbatim>\<open>array_max\<close> of \<^verbatim>\<open>math.js\<close> are
  missing; \<open>min\<close> and \<open>max\<close> are the extremal coefficient values. They are
  \<^verbatim>\<open>Math.min(...arr)\<close> and \<^verbatim>\<open>Math.max(...arr)\<close>, which start from
  \<^verbatim>\<open>Infinity\<close> and \<^verbatim>\<open>-Infinity\<close>.\<close>

definition array_min :: "jsnum list \<Rightarrow> jsnum" where
  "array_min arr = fold (\<lambda>v acc. Math_min acc v) arr PosInf"

definition array_max :: "jsnum list \<Rightarrow> jsnum" where
  "array_max arr = fold (\<lambda>v acc. Math_max acc v) arr NegInf"

text \<open>Modelled from the spec: \<^verbatim>\<open>array_shape\<close> and \<^verbatim>\<open>array_reshape\<close> of
  \<^verbatim>\<open>array.js\<close> are missing. The shape of a coefficient array is
  \<^verbatim>\<open>[order][N]\<close>, read off the array and its first row; reshaping cuts a flat array
  into \<open>order\<close> rows of \<open>N\<close> values.\<close>

definition array_shape :: "jsnum list list \<Rightarrow> nat list" where
  "array_shape arr = (case arr of [] \<Rightarrow> [0] | row # _ \<Rightarrow> [length arr, length row])"

fun array_reshape :: "jsnum list \<Rightarrow> nat list \<Rightarrow> jsnum list list" where
  "array_reshape flat [m, n] = map (\<lambda>i. take n (drop (i * n) flat)) [0..<m]"
| "array_reshape flat shape = []"



definition divide_arrays :: "jsnum \<times> jsnum \<Rightarrow> jsnum \<times> jsnum \<Rightarrow> jsnum \<times> jsnum" where
  "divide_arrays a b = (jdiv (fst a) (fst b), jdiv (snd a) (snd b))"


section \<open>Bounding box\<close>

text \<open>Modelled from the spec: the class \<^verbatim>\<open>BBox\<close> of \<^verbatim>\<open>bbox.js\<close> is missing. It has
  two corners \<open>ll\<close> (lower left) and \<open>ur\<close> (upper right), each an \<open>[x, y]\<close> pair,
  with copy, union-expand by a point and by another box, and width, height and size.
  \<open>left\<close> and \<open>right\<close> read and write the horizontal coordinates of the corners.\<close>

record BBox =
  ll :: "jsnum \<times> jsnum"
  ur :: "jsnum \<times> jsnum"

definition BBox_new :: "jsnum \<times> jsnum \<Rightarrow> jsnum \<times> jsnum \<Rightarrow> BBox" where
  "BBox_new p q = \<lparr>ll = p, ur = q\<rparr>"

definition BBox_left :: "BBox \<Rightarrow> jsnum" where
  "BBox_left b = fst (ll b)"

definition BBox_right :: "BBox \<Rightarrow> jsnum" where
  "BBox_right b = fst (ur b)"

definition BBox_set_left :: "jsnum \<Rightarrow> BBox \<Rightarrow> BBox" where
  "BBox_set_left v b = b\<lparr>ll := (v, snd (ll b))\<rparr>"

definition BBox_set_right :: "jsnum \<Rightarrow> BBox \<Rightarrow> BBox" where
  "BBox_set_right v b = b\<lparr>ur := (v, snd (ur b))\<rparr>"

definition BBox_width :: "BBox \<Rightarrow> jsnum" where
  "BBox_width b = jsub (fst (ur b)) (fst (ll b))"

definition BBox_height :: "BBox \<Rightarrow> jsnum" where
  "BBox_height b = jsub (snd (ur b)) (snd (ll b))"

definition BBox_size :: "BBox \<Rightarrow> jsnum \<times> jsnum" where
  "BBox_size b = (BBox_width b, BBox_height b)"


definition expand_by_point :: "jsnum \<times> jsnum \<Rightarrow> BBox \<Rightarrow> BBox" where
  "expand_by_point pt b =
     \<lparr>ll = (Math_min (fst (ll b)) (fst pt), Math_min (snd (ll b)) (snd pt)),
      ur = (Math_max (fst (ur b)) (fst pt), Math_max (snd (ur b)) (snd pt))\<rparr>"

definition expand_by_bbox :: "BBox \<Rightarrow> BBox \<Rightarrow> BBox" where
  "expand_by_bbox other b = expand_by_point (ur other) (expand_by_point (ll other) b)"


section \<open>Splines: the class BPoly\<close>

text \<open>
  The fields \<^verbatim>\<open>c\<close> and \<^verbatim>\<open>x\<close> of the class are named after the persisted record
  (\<^verbatim>\<open>from_object\<close>): \<open>coefficients\<close> and \<open>knots\<close>. The constructor sets
  \<open>order\<close> and \<open>degree\<close> from the length of \<^verbatim>\<open>c\<close>.
\<close>

record BPoly =
  coefficients :: "jsnum list list"
  knots :: "jsnum list"
  extrapolate :: "bool option"
  axis :: int
  order :: nat
  degree :: int

definition BPoly_new :: "jsnum list list \<Rightarrow> jsnum list \<Rightarrow> bool option \<Rightarrow> int \<Rightarrow> BPoly" where
  "BPoly_new c x e a =
     \<lparr>coefficients = c, knots = x, extrapolate = e, axis = a,
      order = length c, degree = int (length c) - 1\<rparr>"

definition BPoly_start :: "BPoly \<Rightarrow> jsnum" where
  "BPoly_start s = nth_js (knots s) 0"

definition BPoly_end :: "BPoly \<Rightarrow> jsnum" where
  "BPoly_end s = last_element (knots s)"

definition BPoly_duration :: "BPoly \<Rightarrow> jsnum" where
  "BPoly_duration s = jsub (BPoly_end s) (BPoly_start s)"

definition BPoly_n_segments :: "BPoly \<Rightarrow> int" where
  "BPoly_n_segments s = int (length (knots s)) - 1"

definition BPoly_min :: "BPoly \<Rightarrow> jsnum" where
  "BPoly_min s = array_min (concat (coefficients s))"

definition BPoly_max :: "BPoly \<Rightarrow> jsnum" where
  "BPoly_max s = array_max (concat (coefficients s))"

definition BPoly_bbox :: "BPoly \<Rightarrow> BBox" where
  "BPoly_bbox s = BBox_new (BPoly_start s, BPoly_min s) (BPoly_end s, BPoly_max s)"

text \<open>The invariants of a spline: finite, strictly increasing knots, a coefficient
  array whose leading dimension is the order and whose rows hold one finite value per
  segment.\<close>

definition well_formed :: "BPoly \<Rightarrow> bool" where
  "well_formed s \<longleftrightarrow>
     knots s \<noteq> [] \<and> list_all isFinite (knots s) \<and> sorted_wrt jless (knots s) \<and>
     order s = length (coefficients s) \<and>
     list_all (\<lambda>row. length row = length (knots s) - 1 \<and> list_all isFinite row)
       (coefficients s)"


section \<open>Spline transforms and zoom of the motion editor\<close>

definition ZOOM_FACTOR_PER_STEP :: jsnum where
  "ZOOM_FACTOR_PER_STEP = Fin (3 / 2)"

definition DEFAULT_KNOT_SHIFT :: jsnum where
  "DEFAULT_KNOT_SHIFT = Fin (1 / 2)"

definition zoom_bbox_in_place :: "BBox \<Rightarrow> jsnum \<Rightarrow> BBox" where
  "zoom_bbox_in_place bbox factor =
     (let mid = jmul (Fin (1 / 2)) (jadd (BBox_left bbox) (BBox_right bbox));
          bbox1 = BBox_set_left
            (jadd (jmul (jdiv (Fin 1) factor) (jsub (BBox_left bbox) mid)) mid) bbox;
          bbox2 = BBox_set_right
            (jadd (jmul (jdiv (Fin 1) factor) (jsub (BBox_right bbox1) mid)) mid) bbox1
      in bbox2)"

definition scale_spline :: "BPoly \<Rightarrow> jsnum \<Rightarrow> BPoly" where
  "scale_spline spline factor =
     (let shape = array_shape (coefficients spline);
          scaledCoeffs =
            array_reshape (multiply_scalar factor (concat (coefficients spline))) shape
      in BPoly_new scaledCoeffs (knots spline) None 0)"

definition stretch_spline :: "BPoly \<Rightarrow> jsnum \<Rightarrow> BPoly" where
  "stretch_spline spline factor =
     (let stretchedKnots = multiply_scalar factor (knots spline)
      in BPoly_new (coefficients spline) stretchedKnots None 0)"

definition shift_spline :: "BPoly \<Rightarrow> jsnum \<Rightarrow> BPoly" where
  "shift_spline spline offset0 =
     (let start = nth_js (knots spline) 0;
          offset = Math_max offset0 (jneg start);
          shiftedKnots = map (\<lambda>pos. jadd pos offset) (knots spline)
      in BPoly_new (coefficients spline) shiftedKnots None 0)"


section \<open>The viewport transform of CurverBase\<close>

text \<open>
  \<^verbatim>\<open>DOMMatrix\<close> and \<^verbatim>\<open>DOMPoint\<close> belong to the browser. A two-dimensional matrix has
  the six entries \<open>a b c d e f\<close>; a point \<open>(x, y)\<close> is mapped to
  \<open>(a x + c y + e, b x + d y + f)\<close>; \<^verbatim>\<open>inverse()\<close> of a matrix whose determinant
  is zero sets every entry to \<^verbatim>\<open>NaN\<close>.
\<close>

record DOMMatrix =
  m_a :: jsnum
  m_b :: jsnum
  m_c :: jsnum
  m_d :: jsnum
  m_e :: jsnum
  m_f :: jsnum

definition DOMMatrix_new :: DOMMatrix where
  "DOMMatrix_new = \<lparr>m_a = Fin 1, m_b = Fin 0, m_c = Fin 0, m_d = Fin 1, m_e = Fin 0, m_f = Fin 0\<rparr>"

text \<open>\<^verbatim>\<open>DOMMatrix.fromMatrix({a, d, e, f})\<close>: the entries left out are zero.\<close>

definition fromMatrix :: "jsnum \<Rightarrow> jsnum \<Rightarrow> jsnum \<Rightarrow> jsnum \<Rightarrow> DOMMatrix" where
  "fromMatrix a d e f = \<lparr>m_a = a, m_b = Fin 0, m_c = Fin 0, m_d = d, m_e = e, m_f = f\<rparr>"

definition inverse_matrix :: "DOMMatrix \<Rightarrow> DOMMatrix" where
  "inverse_matrix m =
     (let det = jsub (jmul (m_a m) (m_d m)) (jmul (m_b m) (m_c m))
      in if det = Fin 0
         then \<lparr>m_a = NaN, m_b = NaN, m_c = NaN, m_d = NaN, m_e = NaN, m_f = NaN\<rparr>
         else \<lparr>m_a = jdiv (m_d m) det,
               m_b = jdiv (jneg (m_b m)) det,
               m_c = jdiv (jneg (m_c m)) det,
               m_d = jdiv (m_a m) det,
               m_e = jdiv (jsub (jmul (m_c m) (m_f m)) (jmul (m_d m) (m_e m))) det,
               m_f = jdiv (jsub (jmul (m_b m) (m_e m)) (jmul (m_a m) (m_f m))) det\<rparr>)"

definition matrixTransform :: "jsnum \<times> jsnum \<Rightarrow> DOMMatrix \<Rightarrow> jsnum \<times> jsnum" where
  "matrixTransform pt m =
     (jadd (jadd (jmul (m_a m) (fst pt)) (jmul (m_c m) (snd pt))) (m_e m),
      jadd (jadd (jmul (m_b m) (fst pt)) (jmul (m_d m) (snd pt))) (m_f m))"

text \<open>A plotted line: its data points and their maximal number.\<close>

record Line =
  points :: "(jsnum \<times> jsnum) list"
  maxlen :: jsnum

record MouseEvent =
  clientX :: jsnum
  clientY :: jsnum

text \<open>
  The state of \<^verbatim>\<open>CurverBase\<close>: the viewport, the two transforms, the lines, and what
  the methods read from the page: the client size of the graph element, the size of
  the canvas, the corner of the canvas rectangle (\<^verbatim>\<open>getBoundingClientRect\<close>) and the
  transform of the drawing context.
\<close>

record CurverBase =
  auto :: bool
  viewport :: BBox
  trafo :: DOMMatrix
  trafoInv :: DOMMatrix
  lines :: "Line list"
  graph_clientWidth :: jsnum
  graph_clientHeight :: jsnum
  canvas_width :: jsnum
  canvas_height :: jsnum
  canvas_rect :: "jsnum \<times> jsnum"
  ctx_transform :: DOMMatrix

definition MARGIN :: jsnum where
  "MARGIN = Fin 50"

definition MIN_VIEWPORT :: BBox where
  "MIN_VIEWPORT = BBox_new (PosInf, Fin (- (1 / 1000))) (NegInf, Fin (1 / 1000))"

definition update_trafo :: "'a CurverBase_scheme \<Rightarrow> 'a CurverBase_scheme" where
  "update_trafo this =
     (let width = graph_clientWidth this;
          height = graph_clientHeight this;
          s = divide_arrays
                (jsub width (jmul (Fin 2) MARGIN), jsub height (jmul (Fin 2) MARGIN))
                (BBox_size (viewport this));
          sx = fst s;
          sy = snd s
      in if \<not> isFinite sx \<or> \<not> isFinite sy \<or> sx = Fin 0 \<or> sy = Fin 0 then this
         else
           (let t = fromMatrix sx (jneg sy)
                      (jadd (jmul (jneg sx) (fst (ll (viewport this)))) MARGIN)
                      (jadd (jmul sy (jadd (snd (ll (viewport this)))
                                           (BBox_height (viewport this)))) MARGIN)
            in this\<lparr>trafo := t, trafoInv := inverse_matrix t, ctx_transform := t\<rparr>))"

text \<open>The guard of \<^verbatim>\<open>update_trafo\<close>: a viewport is non-degenerate when both scale
  factors are finite and not zero.\<close>

definition nondegenerate :: "'a CurverBase_scheme \<Rightarrow> bool" where
  "nondegenerate this =
     (let s = divide_arrays
                (jsub (graph_clientWidth this) (jmul (Fin 2) MARGIN),
                 jsub (graph_clientHeight this) (jmul (Fin 2) MARGIN))
                (BBox_size (viewport this))
      in isFinite (fst s) \<and> isFinite (snd s) \<and> fst s \<noteq> Fin 0 \<and> snd s \<noteq> Fin 0)"

definition mouse_coordinates :: "'a CurverBase_scheme \<Rightarrow> MouseEvent \<Rightarrow> jsnum \<times> jsnum" where
  "mouse_coordinates this evt =
     (let rect = canvas_rect this;
          x = jsub (clientX evt) (fst rect);
          y = jsub (clientY evt) (snd rect)
      in matrixTransform (x, y) (trafoInv this))"

definition transform_point :: "'a CurverBase_scheme \<Rightarrow> jsnum \<times> jsnum \<Rightarrow> jsnum \<times> jsnum" where
  "transform_point this pt = matrixTransform pt (trafo this)"

text \<open>The zoom buttons: \<^verbatim>\<open>zoom_bbox_in_place(this.viewport, factor)\<close>, then
  \<^verbatim>\<open>update_trafo()\<close> (and the redraw, which changes none of the fields above).\<close>

definition zoom_click :: "jsnum \<Rightarrow> 'a CurverBase_scheme \<Rightarrow> 'a CurverBase_scheme" where
  "zoom_click factor this =
     update_trafo (this\<lparr>viewport := zoom_bbox_in_place (viewport this) factor\<rparr>)"


section \<open>Drag navigation\<close>

text \<open>
  \<^verbatim>\<open>setup_svg_drag_navigation\<close> keeps three variables between the callbacks of a
  gesture: the pointer position at its begin, a copy of the viewport, and the focal
  point. Outside a gesture the first two are \<^verbatim>\<open>null\<close>.
\<close>

datatype js_error = TypeError

record gesture =
  drag_start :: "(jsnum \<times> jsnum) option"
  drag_orig :: "BBox option"
  drag_mid :: jsnum

definition gesture_init :: gesture where
  "gesture_init = \<lparr>drag_start = None, drag_orig = None, drag_mid = Fin 0\<rparr>"




definition drag_end :: "gesture \<Rightarrow> gesture" where
  "drag_end g = \<lparr>drag_start = None, drag_orig = None, drag_mid = Fin 0\<rparr>"


section \<open>Transport\<close>

text \<open>Modelled from the spec: the class \<^verbatim>\<open>Transport\<close> of \<^verbatim>\<open>transport.js\<close> is
  missing. It owns the state (Paused, Playing or Recording), the position, the
  duration, the looping flag and the start time. \<^verbatim>\<open>play()\<close>, \<^verbatim>\<open>pause()\<close>,
  \<^verbatim>\<open>stop()\<close> and \<^verbatim>\<open>record()\<close> lead to Playing, Paused, Paused and Recording;
  the sources call \<^verbatim>\<open>stop()\<close> and \<^verbatim>\<open>pause()\<close> in every state (the stop button,
  the behavior notice), so they are defined in every state. What else \<^verbatim>\<open>stop()\<close>
  does (the sources say it is not the same as \<^verbatim>\<open>pause()\<close>) the spec does not tell.
  \<^verbatim>\<open>move(timestamp)\<close> maps the timestamp to \<open>timestamp - startTime\<close>, taken
  modulo the duration when looping, writes it to the position while Playing, and
  returns it.\<close>

datatype transport_state = PAUSED | PLAYING | RECORDING

record Transport =
  state :: transport_state
  position :: jsnum
  duration :: jsnum
  looping :: bool
  startTime :: jsnum

definition Transport_paused :: "Transport \<Rightarrow> bool" where
  "Transport_paused tr \<longleftrightarrow> state tr = PAUSED"

definition Transport_playing :: "Transport \<Rightarrow> bool" where
  "Transport_playing tr \<longleftrightarrow> state tr = PLAYING"

definition Transport_recording :: "Transport \<Rightarrow> bool" where
  "Transport_recording tr \<longleftrightarrow> state tr = RECORDING"

definition Transport_play :: "Transport \<Rightarrow> Transport" where
  "Transport_play tr = tr\<lparr>state := PLAYING\<rparr>"

definition Transport_pause :: "Transport \<Rightarrow> Transport" where
  "Transport_pause tr = tr\<lparr>state := PAUSED\<rparr>"

definition Transport_stop :: "Transport \<Rightarrow> Transport" where
  "Transport_stop tr = tr\<lparr>state := PAUSED\<rparr>"

definition Transport_record :: "Transport \<Rightarrow> Transport" where
  "Transport_record tr = tr\<lparr>state := RECORDING\<rparr>"

definition toggle_looping :: "Transport \<Rightarrow> Transport" where
  "toggle_looping tr = tr\<lparr>looping := \<not> looping tr\<rparr>"

definition Transport_move :: "jsnum \<Rightarrow> Transport \<Rightarrow> jsnum \<times> Transport" where
  "Transport_move ts tr =
     (let pos0 = jsub ts (startTime tr);
          pos = (if looping tr then jmod pos0 (duration tr) else pos0)
      in (pos, if Transport_playing tr then tr\<lparr>position := pos\<rparr> else tr))"


section \<open>Edit history\<close>

text \<open>Modelled from the spec: the class \<^verbatim>\<open>History\<close> of \<^verbatim>\<open>history.js\<close> is missing.
  It is a sequence of snapshots and a cursor into it. \<^verbatim>\<open>capture\<close> cuts the redo
  tail, appends and moves the cursor to the new last index; \<^verbatim>\<open>retrieve\<close> returns
  the snapshot at the cursor (\<^verbatim>\<open>undefined\<close>, here \<open>None\<close>, when there is none);
  \<^verbatim>\<open>clear\<close> empties the sequence and resets the cursor; \<open>length\<close> and
  \<open>savable\<close> derive from the number of snapshots.\<close>

record 'a History =
  snapshots :: "'a list"
  cursor :: nat

definition History_length :: "'a History \<Rightarrow> nat" where
  "History_length h = length (snapshots h)"

definition undoable :: "'a History \<Rightarrow> bool" where
  "undoable h \<longleftrightarrow> 0 < cursor h"

definition redoable :: "'a History \<Rightarrow> bool" where
  "redoable h \<longleftrightarrow> cursor h + 1 < length (snapshots h)"

definition savable :: "'a History \<Rightarrow> bool" where
  "savable h \<longleftrightarrow> 1 < length (snapshots h)"

definition capture :: "'a \<Rightarrow> 'a History \<Rightarrow> 'a History" where
  "capture snapshot h =
     (let kept = take (cursor h + 1) (snapshots h)
      in \<lparr>snapshots = kept @ [snapshot], cursor = length kept\<rparr>)"

definition retrieve :: "'a History \<Rightarrow> 'a option" where
  "retrieve h = (if cursor h < length (snapshots h) then Some (snapshots h ! cursor h) else None)"

definition undo :: "'a History \<Rightarrow> 'a History" where
  "undo h = h\<lparr>cursor := cursor h - 1\<rparr>"

definition redo :: "'a History \<Rightarrow> 'a History" where
  "redo h = h\<lparr>cursor := cursor h + 1\<rparr>"

definition clear :: "'a History \<Rightarrow> 'a History" where
  "clear h = \<lparr>snapshots = [], cursor = 0\<rparr>"


section \<open>Splines as objects: arrays in a store\<close>

text \<open>
  A JavaScript array is an object: two splines can hold the same array, and a write
  through one is seen through the other. Where that matters, a spline is an object
  whose fields \<^verbatim>\<open>c\<close> and \<^verbatim>\<open>x\<close> are addresses of arrays in a store, and
  \<open>deref\<close> reads the spline (as a value of type \<^typ>\<open>BPoly\<close>) that the object
  denotes in a store. A new array takes the next free address.
\<close>

record Store =
  coefficient_arrays :: "nat \<Rightarrow> jsnum list list"
  knot_arrays :: "nat \<Rightarrow> jsnum list"
  next_array :: nat

record BPolyRef =
  c_ref :: nat
  x_ref :: nat
  ref_extrapolate :: "bool option"
  ref_axis :: int
  ref_order :: nat
  ref_degree :: int

definition deref :: "Store \<Rightarrow> BPolyRef \<Rightarrow> BPoly" where
  "deref st s =
     \<lparr>coefficients = coefficient_arrays st (c_ref s), knots = knot_arrays st (x_ref s),
      extrapolate = ref_extrapolate s, axis = ref_axis s,
      order = ref_order s, degree = ref_degree s\<rparr>"

definition new_coefficient_array :: "jsnum list list \<Rightarrow> Store \<Rightarrow> nat \<times> Store" where
  "new_coefficient_array arr st =
     (next_array st,
      st\<lparr>coefficient_arrays := (coefficient_arrays st)(next_array st := arr),
         next_array := Suc (next_array st)\<rparr>)"

definition new_knot_array :: "jsnum list \<Rightarrow> Store \<Rightarrow> nat \<times> Store" where
  "new_knot_array arr st =
     (next_array st,
      st\<lparr>knot_arrays := (knot_arrays st)(next_array st := arr),
         next_array := Suc (next_array st)\<rparr>)"

text \<open>Any change of the contents of the array at an address: writing an element,
  pushing, splicing.\<close>

definition mutate_coefficients :: "nat \<Rightarrow> jsnum list list \<Rightarrow> Store \<Rightarrow> Store" where
  "mutate_coefficients a arr st = st\<lparr>coefficient_arrays := (coefficient_arrays st)(a := arr)\<rparr>"

definition mutate_knots :: "nat \<Rightarrow> jsnum list \<Rightarrow> Store \<Rightarrow> Store" where
  "mutate_knots a arr st = st\<lparr>knot_arrays := (knot_arrays st)(a := arr)\<rparr>"

text \<open>The constructor, on arrays that are in the store already.\<close>

definition BPolyRef_new :: "Store \<Rightarrow> nat \<Rightarrow> nat \<Rightarrow> bool option \<Rightarrow> int \<Rightarrow> BPolyRef" where
  "BPolyRef_new st c x e a =
     \<lparr>c_ref = c, x_ref = x, ref_extrapolate = e, ref_axis = a,
      ref_order = length (coefficient_arrays st c),
      ref_degree = int (length (coefficient_arrays st c)) - 1\<rparr>"

text \<open>Modelled from the spec: \<^verbatim>\<open>deep_copy\<close> of \<^verbatim>\<open>utils.js\<close> is missing; \<^verbatim>\<open>copy()\<close>
  is a full structural duplication with knot and coefficient storage of its own. Each
  \<^verbatim>\<open>deep_copy\<close> makes a new array with the same values.\<close>

definition BPoly_copy :: "BPolyRef \<Rightarrow> Store \<Rightarrow> BPolyRef \<times> Store" where
  "BPoly_copy this st =
     (let (c, st1) = new_coefficient_array (coefficient_arrays st (c_ref this)) st;
          (x, st2) = new_knot_array (knot_arrays st1 (x_ref this)) st1
      in (BPolyRef_new st2 c x (ref_extrapolate this) (ref_axis this), st2))"

text \<open>The transforms of the motion editor on objects. \<^verbatim>\<open>scale_spline\<close> makes a new
  coefficient array and passes on \<^verbatim>\<open>spline.x\<close>; \<^verbatim>\<open>stretch_spline\<close> and
  \<^verbatim>\<open>shift_spline\<close> make a new knot array and pass on \<^verbatim>\<open>spline.c\<close>. The values
  are those of the functions on spline values above.\<close>

definition scale_spline_ref :: "BPolyRef \<Rightarrow> jsnum \<Rightarrow> Store \<Rightarrow> BPolyRef \<times> Store" where
  "scale_spline_ref spline factor st =
     (let (scaledCoeffs, st1) =
            new_coefficient_array (coefficients (scale_spline (deref st spline) factor)) st
      in (BPolyRef_new st1 scaledCoeffs (x_ref spline) None 0, st1))"

definition stretch_spline_ref :: "BPolyRef \<Rightarrow> jsnum \<Rightarrow> Store \<Rightarrow> BPolyRef \<times> Store" where
  "stretch_spline_ref spline factor st =
     (let (stretchedKnots, st1) =
            new_knot_array (knots (stretch_spline (deref st spline) factor)) st
      in (BPolyRef_new st1 (c_ref spline) stretchedKnots None 0, st1))"

definition shift_spline_ref :: "BPolyRef \<Rightarrow> jsnum \<Rightarrow> Store \<Rightarrow> BPolyRef \<times> Store" where
  "shift_spline_ref spline offset st =
     (let (shiftedKnots, st1) =
            new_knot_array (knots (shift_spline (deref st spline) offset)) st
      in (BPolyRef_new st1 (c_ref spline) shiftedKnots None 0, st1))"


section \<open>The motion editor\<close>

text \<open>
  The requests sent to the back end are kept in a list. A request is answered later:
  an \<^verbatim>\<open>await\<close> ends the synchronous part of an \<^verbatim>\<open>async\<close> method, and the rest of
  the method runs when the answer has come, or not at all when the request fails.
\<close>

datatype request =
    StopSplinePlayback
  | PlaySpline "BPolyRef option" bool jsnum
  | LivePreview jsnum

datatype response = Resolved jsnum | Rejected

text \<open>What \<^verbatim>\<open>update_ui\<close> writes into the toolbar. The icons and the enabled and
  checked flags of the play, record and stop buttons and of the motor selector are
  fixed by the transport state in each case of the \<^verbatim>\<open>switch\<close>; the toolbar keeps
  the state that was shown.\<close>

record Toolbar =
  listBtn_on :: bool
  saveBtn_disabled :: bool
  undoBtn_disabled :: bool
  redoBtn_disabled :: bool
  shown_state :: transport_state
  loopBtn_on :: bool

record Message =
  msg_timestamp :: jsnum
  msg_values :: "jsnum list"

text \<open>
  The state of the class \<^verbatim>\<open>Editor\<close>, which extends \<^verbatim>\<open>CurverBase\<close>. The motor
  selector (not among the sources) gives the lengths of the motors of the selected
  motion player and the indices of the selected value outputs; both are fields here.
\<close>

record Editor = CurverBase +
  store :: Store
  history :: "BPolyRef History"
  transport :: Transport
  recordedTrajectory :: "jsnum list list"
  interval :: jsnum
  toolbar :: Toolbar
  motionListDiv_folded :: bool
  limitBtn_checked :: bool
  livePreviewBtn_checked :: bool
  motor_lengths :: "jsnum list"
  outputIndices :: "nat list"
  requests :: "request list"

definition INTERVAL :: jsnum where
  "INTERVAL = Fin (1 / 100)"

definition update_ui :: "Editor \<Rightarrow> Editor" where
  "update_ui this =
     this\<lparr>toolbar :=
       \<lparr>listBtn_on = \<not> motionListDiv_folded this,
        saveBtn_disabled = (\<not> 1 < History_length (history this)),
        undoBtn_disabled = (\<not> undoable (history this)),
        redoBtn_disabled = (\<not> redoable (history this)),
        shown_state = state (transport this),
        loopBtn_on = looping (transport this)\<rparr>\<rparr>"

definition limits :: "Editor \<Rightarrow> BBox" where
  "limits this =
     (if limitBtn_checked this
      then fold (\<lambda>len bbox. expand_by_point (PosInf, len) bbox) (motor_lengths this)
             (BBox_new (Fin 0, Fin 0) (PosInf, Fin (1 / 1000)))
      else BBox_new (Fin 0, NegInf) (PosInf, PosInf))"

text \<open>\<^verbatim>\<open>stop_spline_playback\<close>: up to the \<^verbatim>\<open>await\<close>, after it, and the whole
  method when nothing else happens before the answer.\<close>

definition stop_spline_playback_request :: "Editor \<Rightarrow> Editor" where
  "stop_spline_playback_request this =
     (if \<not> Transport_paused (transport this)
      then this\<lparr>requests := requests this @ [StopSplinePlayback]\<rparr>
      else this)"

definition stop_spline_playback_resume :: "Editor \<Rightarrow> Editor" where
  "stop_spline_playback_resume this =
     update_ui (this\<lparr>transport := Transport_pause (transport this)\<rparr>)"

definition stop_spline_playback :: "response \<Rightarrow> Editor \<Rightarrow> Editor" where
  "stop_spline_playback resp this =
     (if \<not> Transport_paused (transport this)
      then (case resp of
              Resolved v \<Rightarrow> stop_spline_playback_resume (stop_spline_playback_request this)
            | Rejected \<Rightarrow> stop_spline_playback_request this)
      else this)"

definition play_current_spline :: "response \<Rightarrow> Editor \<Rightarrow> Editor" where
  "play_current_spline resp this =
     (let spline = retrieve (history this);
          loop = looping (transport this);
          offset = position (transport this);
          this1 = this\<lparr>requests := requests this @ [PlaySpline spline loop offset]\<rparr>
      in case resp of
           Resolved startTime0 \<Rightarrow>
             update_ui (this1\<lparr>transport :=
               Transport_play ((transport this1)\<lparr>startTime := jadd startTime0 INTERVAL\<rparr>)\<rparr>)
         | Rejected \<Rightarrow> this1)"

definition toggle_playback :: "response \<Rightarrow> Editor \<Rightarrow> Editor" where
  "toggle_playback resp this =
     (if Transport_playing (transport this) then stop_spline_playback resp this
      else play_current_spline resp this)"

text \<open>\<^verbatim>\<open>draw_current_spline\<close>, without the drawing. With no snapshot at the cursor,
  reading \<^verbatim>\<open>current.min\<close> is a \<^verbatim>\<open>TypeError\<close>.\<close>

definition draw_current_spline :: "Editor \<Rightarrow> js_error + Editor" where
  "draw_current_spline this =
     (case retrieve (history this) of
        None \<Rightarrow> Inl TypeError
      | Some cur \<Rightarrow>
          (let current = deref (store this) cur;
               vp = viewport this;
               vp1 = vp\<lparr>ll := (fst (ll vp), Math_min (snd (ll vp)) (BPoly_min current))\<rparr>;
               vp2 = vp1\<lparr>ur := (fst (ur vp1), Math_max (snd (ur vp1)) (BPoly_max current))\<rparr>;
               this1 = update_trafo (this\<lparr>viewport := vp2\<rparr>);
               dur = BPoly_end current;
               this2 = this1\<lparr>transport := (transport this1)\<lparr>duration := dur\<rparr>\<rparr>;
               this3 = this2\<lparr>lines :=
                         map (\<lambda>line. line\<lparr>maxlen := jdiv (jmul (Fin (9 / 10)) dur) (interval this2)\<rparr>)
                             (lines this2)\<rparr>
           in Inr (update_ui this3)))"

text \<open>\<^verbatim>\<open>spline_changing\<close> calls \<^verbatim>\<open>stop_spline_playback\<close> and does not wait for
  it: only its part up to the \<^verbatim>\<open>await\<close> runs here.\<close>

definition spline_changing :: "(jsnum \<times> jsnum) option \<Rightarrow> Editor \<Rightarrow> Editor" where
  "spline_changing pos this =
     (let this1 = stop_spline_playback_request this;
          this2 = this1\<lparr>lines := map (\<lambda>line. line\<lparr>points := []\<rparr>) (lines this1)\<rparr>
      in case pos of
           None \<Rightarrow> this2
         | Some p \<Rightarrow>
             if livePreviewBtn_checked this2
             then this2\<lparr>transport := (transport this2)\<lparr>position := fst p\<rparr>,
                        requests := requests this2 @ [LivePreview (snd p)]\<rparr>
             else this2)"

text \<open>\<^verbatim>\<open>spline_changed\<close>. The method \<^verbatim>\<open>restrict_to_bbox\<close> of the class
  \<^verbatim>\<open>BPoly\<close> is not among the sources (the file of the class is a version without
  it), and the spec says only that it clamps the spline into the box, not whether it
  writes into the arrays of the spline or gives the spline new ones. It is an
  argument here: from the box, the working copy and the store to the working copy and
  the store after the call.\<close>

definition spline_changed ::
  "(BBox \<Rightarrow> BPolyRef \<Rightarrow> Store \<Rightarrow> BPolyRef \<times> Store) \<Rightarrow> BPolyRef \<Rightarrow> Editor
     \<Rightarrow> js_error + Editor" where
  "spline_changed restrict_to_bbox workingCopy0 this =
     (let boundaries = limits this;
          (workingCopy, st) = restrict_to_bbox boundaries workingCopy0 (store this);
          this1 = this\<lparr>store := st, history := capture workingCopy (history this)\<rparr>
      in draw_current_spline this1)"

text \<open>The seven buttons that transform the spline, by their icons: scale down and
  up, speed up and slow down, move to the left, shift left and right.\<close>

datatype spline_tool =
  Compress | Expand | Directions_run | Hiking | First_page | Chevron_left | Chevron_right

definition apply_tool :: "spline_tool \<Rightarrow> BPolyRef \<Rightarrow> Store \<Rightarrow> BPolyRef \<times> Store" where
  "apply_tool tool spline st =
     (case tool of
        Compress \<Rightarrow> scale_spline_ref spline (Fin (1 / 2)) st
      | Expand \<Rightarrow> scale_spline_ref spline (Fin 2) st
      | Directions_run \<Rightarrow> stretch_spline_ref spline (Fin (1 / 2)) st
      | Hiking \<Rightarrow> stretch_spline_ref spline (Fin 2) st
      | First_page \<Rightarrow> shift_spline_ref spline NegInf st
      | Chevron_left \<Rightarrow> shift_spline_ref spline (jneg DEFAULT_KNOT_SHIFT) st
      | Chevron_right \<Rightarrow> shift_spline_ref spline DEFAULT_KNOT_SHIFT st)"

definition tool_click ::
  "(BBox \<Rightarrow> BPolyRef \<Rightarrow> Store \<Rightarrow> BPolyRef \<times> Store) \<Rightarrow> spline_tool \<Rightarrow> Editor
     \<Rightarrow> js_error + Editor" where
  "tool_click restrict_to_bbox tool this =
     (if History_length (history this) = 0 then Inr this
      else
        (let this1 = spline_changing None this
         in case retrieve (history this1) of
              None \<Rightarrow> Inl TypeError
            | Some cur \<Rightarrow>
                (let (newSpline, st) = apply_tool tool cur (store this1)
                 in spline_changed restrict_to_bbox newSpline (this1\<lparr>store := st\<rparr>))))"

text \<open>\<^verbatim>\<open>new_data\<close>. The class \<^verbatim>\<open>Line\<close> is not among the sources: its method
  \<^verbatim>\<open>append_data\<close> is an argument; \<^verbatim>\<open>popleft\<close> drops the oldest point. Calling a
  method of a line that does not exist is a \<^verbatim>\<open>TypeError\<close>.\<close>

fun append_values ::
  "(Line \<Rightarrow> jsnum \<times> jsnum \<Rightarrow> Line) \<Rightarrow> jsnum \<Rightarrow> jsnum list \<Rightarrow> nat list \<Rightarrow> nat \<Rightarrow> Line list
     \<Rightarrow> js_error + Line list" where
  "append_values append_data t vals [] nr ls = Inr ls"
| "append_values append_data t vals (idx # idxs) nr ls =
     (if nr < length ls
      then append_values append_data t vals idxs (Suc nr)
             (ls[nr := append_data (ls ! nr) (t, nth_js vals idx)])
      else Inl TypeError)"

definition new_data ::
  "(Line \<Rightarrow> jsnum \<times> jsnum \<Rightarrow> Line) \<Rightarrow> Message \<Rightarrow> Editor \<Rightarrow> js_error + Editor" where
  "new_data append_data msg this =
     (let (t, tr) = Transport_move (msg_timestamp msg) (transport this);
          this1 = this\<lparr>transport := tr\<rparr>;
          this2 = (if Transport_playing (transport this1) \<and> jgreater t (duration (transport this1))
                   then update_ui (this1\<lparr>transport := Transport_stop (transport this1)\<rparr>)
                   else this1);
          plotted =
            (if Transport_paused (transport this2)
             then Inr (map (\<lambda>line. line\<lparr>points := tl (points line)\<rparr>) (lines this2))
             else append_values append_data t (msg_values msg) (outputIndices this2) 0 (lines this2))
      in case plotted of
           Inl err \<Rightarrow> Inl err
         | Inr ls \<Rightarrow>
             (let this3 = this2\<lparr>lines := ls\<rparr>
              in if Transport_recording (transport this3)
                 then Inr (this3\<lparr>recordedTrajectory := recordedTrajectory this3 @
                             [t # map (\<lambda>i. nth_js (msg_values msg) i) (outputIndices this3)]\<rparr>)
                 else Inr this3))"

definition new_behavior_message :: "bool \<Rightarrow> Editor \<Rightarrow> Editor" where
  "new_behavior_message active this =
     (if active then update_ui (this\<lparr>transport := Transport_stop (transport this)\<rparr>) else this)"


section \<open>Concrete inputs\<close>

text \<open>Inputs at which the theorems below are evaluated.\<close>

definition example_spline :: BPoly where
  "example_spline = BPoly_new [[Fin 0], [Fin 1], [Fin 3], [Fin 2]] [Fin 1, Fin 3] None 0"

definition example_curver :: CurverBase where
  "example_curver =
     \<lparr>auto = False, viewport = BBox_new (Fin 0, Fin 0) (Fin 2, Fin 1),
      trafo = DOMMatrix_new, trafoInv = DOMMatrix_new, lines = [],
      graph_clientWidth = Fin 300, graph_clientHeight = Fin 200,
      canvas_width = Fin 300, canvas_height = Fin 200, canvas_rect = (Fin 10, Fin 20),
      ctx_transform = DOMMatrix_new\<rparr>"


definition example_store :: Store where
  "example_store =
     \<lparr>coefficient_arrays = (\<lambda>a. [])(0 := [[Fin 2], [Fin 2], [Fin 2], [Fin 2]]),
      knot_arrays = (\<lambda>a. [])(1 := [Fin 0, Fin 1]),
      next_array = 2\<rparr>"

definition example_snapshot :: BPolyRef where
  "example_snapshot = BPolyRef_new example_store 0 1 None 0"

definition example_editor :: Editor where
  "example_editor =
     CurverBase.extend example_curver
       (Editor.fields example_store \<lparr>snapshots = [example_snapshot], cursor = 0\<rparr>
          \<lparr>state = PLAYING, position = Fin 0, duration = Fin 1, looping = False, startTime = Fin 10\<rparr>
          [] (Fin (1 / 100))
          \<lparr>listBtn_on = True, saveBtn_disabled = True, undoBtn_disabled = True,
           redoBtn_disabled = True, shown_state = PLAYING, loopBtn_on = False\<rparr>
          False True True [Fin 1] [] [])"


section \<open>Facts about numbers and arrays\<close>

lemma finite_list_obtain:
  "list_all isFinite xs \<Longrightarrow> \<exists>rs. xs = map Fin rs"
proof (induction xs)
  case Nil
  then show ?case by simp
next
  case (Cons a xs)
  then obtain rs where "xs = map Fin rs" by auto
  moreover from Cons.prems obtain r where "a = Fin r" by (cases a) auto
  ultimately have "a # xs = map Fin (r # rs)" by simp
  then show ?case ..
qed

lemma fold_min_Fin:
  "fold (\<lambda>v acc. Math_min acc v) (map Fin rs) (Fin a) = Fin (fold min rs a)"
  by (induction rs arbitrary: a) (auto simp: min.commute)

lemma fold_max_Fin:
  "fold (\<lambda>v acc. Math_max acc v) (map Fin rs) (Fin a) = Fin (fold max rs a)"
  by (induction rs arbitrary: a) (auto simp: max.commute)

lemma array_min_Fin:
  "rs \<noteq> [] \<Longrightarrow> array_min (map Fin rs) = Fin (Min (set rs))"
proof -
  assume "rs \<noteq> []"
  then obtain a as where rs: "rs = a # as" by (cases rs) auto
  have "Min (set (a # as)) = fold min as a" by (rule Min.set_eq_fold)
  then show ?thesis by (simp add: rs array_min_def fold_min_Fin)
qed

lemma array_max_Fin:
  "rs \<noteq> [] \<Longrightarrow> array_max (map Fin rs) = Fin (Max (set rs))"
proof -
  assume "rs \<noteq> []"
  then obtain a as where rs: "rs = a # as" by (cases rs) auto
  have "Max (set (a # as)) = fold max as a" by (rule Max.set_eq_fold)
  then show ?thesis by (simp add: rs array_max_def fold_max_Fin)
qed

lemma jmul_Math_min:
  "0 < k \<Longrightarrow> jmul (Fin k) (Math_min a b) = Math_min (jmul (Fin k) a) (jmul (Fin k) b)"
  by (cases a; cases b) (auto simp: min_def)

lemma jmul_Math_max:
  "0 < k \<Longrightarrow> jmul (Fin k) (Math_max a b) = Math_max (jmul (Fin k) a) (jmul (Fin k) b)"
  by (cases a; cases b) (auto simp: max_def)

lemma fold_min_scale:
  "0 < k \<Longrightarrow> fold (\<lambda>v acc. Math_min acc v) (map (jmul (Fin k)) vs) (jmul (Fin k) a)
     = jmul (Fin k) (fold (\<lambda>v acc. Math_min acc v) vs a)"
  by (induction vs arbitrary: a) (simp_all add: jmul_Math_min[symmetric])

lemma fold_max_scale:
  "0 < k \<Longrightarrow> fold (\<lambda>v acc. Math_max acc v) (map (jmul (Fin k)) vs) (jmul (Fin k) a)
     = jmul (Fin k) (fold (\<lambda>v acc. Math_max acc v) vs a)"
  by (induction vs arbitrary: a) (simp_all add: jmul_Math_max[symmetric])

lemma array_min_scale:
  assumes "0 < k"
  shows "array_min (multiply_scalar (Fin k) vs) = jmul (Fin k) (array_min vs)"
proof -
  have "jmul (Fin k) PosInf = PosInf" using assms by simp
  then show ?thesis
    using fold_min_scale[OF assms, of vs PosInf]
    by (simp add: array_min_def multiply_scalar_def)
qed

lemma array_max_scale:
  assumes "0 < k"
  shows "array_max (multiply_scalar (Fin k) vs) = jmul (Fin k) (array_max vs)"
proof -
  have "jmul (Fin k) NegInf = NegInf" using assms by simp
  then show ?thesis
    using fold_max_scale[OF assms, of vs NegInf]
    by (simp add: array_max_def multiply_scalar_def)
qed

lemma drop_past_row:
  "length r = n \<Longrightarrow> drop (Suc i * n) (r @ rest) = drop (i * n) rest"
  by simp

lemma reshape_rows:
  "\<forall>row \<in> set c. length row = n \<Longrightarrow>
   map (\<lambda>i. take n (drop (i * n) (map f (concat c)))) [0..<length c] = map (map f) c"
proof (induction c)
  case Nil
  then show ?case by simp
next
  case (Cons row c)
  have len: "length (map f row) = n" using Cons.prems by simp
  let ?g = "\<lambda>i. take n (drop (i * n) (map f (concat (row # c))))"
  have "map ?g [0..<length (row # c)] = ?g 0 # map (\<lambda>i. ?g (Suc i)) [0..<length c]"
    unfolding length_Cons by (rule map_upt_Suc)
  moreover have "?g 0 = map f row" using len by simp
  moreover have "?g (Suc i) = take n (drop (i * n) (map f (concat c)))" for i
    using drop_past_row[OF len, of i "map f (concat c)"] by simp
  ultimately show ?case using Cons by simp
qed

lemma list_all_concat:
  "list_all (\<lambda>row. P row \<and> list_all Q row) c \<Longrightarrow> list_all Q (concat c)"
  by (induction c) auto

lemma jless_Fin_Min:
  "finite A \<Longrightarrow> v \<in> A \<Longrightarrow> \<not> jless (Fin v) (Fin (Min A)) \<and> \<not> jless (Fin (Max A)) (Fin v)"
  by (simp add: not_less)

lemma example_spline_simps:
  "knots example_spline = [Fin 1, Fin 3]"
  "coefficients example_spline = [[Fin 0], [Fin 1], [Fin 3], [Fin 2]]"
  "order example_spline = 4"
  by (simp_all add: example_spline_def BPoly_new_def)

lemma example_spline_well_formed: "well_formed example_spline"
  by (simp add: well_formed_def example_spline_simps)


section \<open>Bounding box and transforms of a spline\<close>

text \<open>
  Claim C8. For a well-formed spline with at least one coefficient, \<^verbatim>\<open>bbox()\<close> has
  the lower-left corner \<open>[start, min]\<close> and the upper-right corner \<open>[end, max]\<close>:
  start and end are the first and the last knot, and min and max are coefficient
  values that no flattened coefficient lies below, respectively above (the extrema of
  the coefficients, not of the curve).
\<close>

theorem bbox_corners:
  assumes "well_formed s" and "concat (coefficients s) \<noteq> []"
  shows "BPoly_bbox s = BBox_new (hd (knots s), BPoly_min s) (last (knots s), BPoly_max s)
     \<and> BPoly_min s \<in> set (concat (coefficients s))
     \<and> BPoly_max s \<in> set (concat (coefficients s))
     \<and> (\<forall>v \<in> set (concat (coefficients s)).
           \<not> jless v (BPoly_min s) \<and> \<not> jless (BPoly_max s) v)"
proof -
  from assms(1) have ne: "knots s \<noteq> []" by (simp add: well_formed_def)
  from assms(1) have "list_all isFinite (concat (coefficients s))"
    unfolding well_formed_def by (elim conjE) (rule list_all_concat)
  then obtain rs where rs: "concat (coefficients s) = map Fin rs"
    using finite_list_obtain by blast
  with assms(2) have rne: "rs \<noteq> []" by auto
  have mn: "BPoly_min s = Fin (Min (set rs))"
    by (simp add: BPoly_min_def rs array_min_Fin[OF rne])
  have mx: "BPoly_max s = Fin (Max (set rs))"
    by (simp add: BPoly_max_def rs array_max_Fin[OF rne])
  have "Min (set rs) \<in> set rs" "Max (set rs) \<in> set rs"
    using rne by (simp_all add: Min_in Max_in)
  then have mem: "BPoly_min s \<in> set (concat (coefficients s))"
    "BPoly_max s \<in> set (concat (coefficients s))"
    by (simp_all add: mn mx rs)
  have corners: "BPoly_bbox s =
      BBox_new (hd (knots s), BPoly_min s) (last (knots s), BPoly_max s)"
    using ne by (simp add: BPoly_bbox_def BPoly_start_def BPoly_end_def nth_js_def
        last_element_def hd_conv_nth)
  have bounds: "\<not> jless v (BPoly_min s) \<and> \<not> jless (BPoly_max s) v"
    if "v \<in> set (concat (coefficients s))" for v
  proof -
    from that obtain r where "r \<in> set rs" "v = Fin r" by (auto simp: rs)
    then show ?thesis by (simp add: mn mx not_less)
  qed
  from corners mem bounds show ?thesis by blast
qed

text \<open>
  The bounding box of the example spline: knots from 1 to 3, coefficients from 0 to 3.
\<close>

theorem bbox_corners_witness:
  "well_formed example_spline \<and> BPoly_bbox example_spline = BBox_new (Fin 1, Fin 0) (Fin 3, Fin 3)"
proof -
  have ne: "concat (coefficients example_spline) \<noteq> []" by (simp add: example_spline_simps)
  show ?thesis
    using bbox_corners[OF example_spline_well_formed ne] example_spline_well_formed
    by (simp add: example_spline_simps BPoly_min_def BPoly_max_def array_min_def array_max_def)
qed

text \<open>
  Claim C3. For a well-formed spline \<open>s\<close> and a factor \<open>k > 0\<close>:
  \<^verbatim>\<open>stretch_spline(s, k)\<close> has \<open>k\<close> times the duration of \<open>s\<close> and the
  coefficients of \<open>s\<close>; \<^verbatim>\<open>scale_spline(s, k)\<close> has \<open>k\<close> times the min and
  \<open>k\<close> times the max of \<open>s\<close> and the knots of \<open>s\<close>.
\<close>

theorem stretch_scale:
  assumes "well_formed s" and "0 < k"
  shows "BPoly_duration (stretch_spline s (Fin k)) = jmul (Fin k) (BPoly_duration s)
     \<and> coefficients (stretch_spline s (Fin k)) = coefficients s
     \<and> BPoly_min (scale_spline s (Fin k)) = jmul (Fin k) (BPoly_min s)
     \<and> BPoly_max (scale_spline s (Fin k)) = jmul (Fin k) (BPoly_max s)
     \<and> knots (scale_spline s (Fin k)) = knots s"
proof -
  from assms(1) obtain ks where ks: "knots s = map Fin ks"
    unfolding well_formed_def using finite_list_obtain by blast
  from assms(1) have kne: "ks \<noteq> []" by (auto simp: well_formed_def ks)
  have "BPoly_duration (stretch_spline s (Fin k)) = Fin (k * last ks - k * hd ks)"
    using kne by (simp add: BPoly_duration_def BPoly_end_def BPoly_start_def
        stretch_spline_def BPoly_new_def multiply_scalar_def ks last_element_def
        nth_js_def jsub_def last_map hd_conv_nth)
  moreover have "jmul (Fin k) (BPoly_duration s) = Fin (k * (last ks - hd ks))"
    using kne by (simp add: BPoly_duration_def BPoly_end_def BPoly_start_def ks
        last_element_def nth_js_def jsub_def last_map hd_conv_nth)
  ultimately have dur: "BPoly_duration (stretch_spline s (Fin k)) = jmul (Fin k) (BPoly_duration s)"
    by (simp add: right_diff_distrib)
  have co: "coefficients (stretch_spline s (Fin k)) = coefficients s"
    by (simp add: stretch_spline_def BPoly_new_def)
  have rows: "\<forall>row \<in> set (coefficients s). length row = length (knots s) - 1"
    using assms(1) by (auto simp: well_formed_def list_all_iff)
  have sc: "coefficients (scale_spline s (Fin k)) = map (map (jmul (Fin k))) (coefficients s)"
  proof (cases "coefficients s")
    case Nil
    then show ?thesis
      by (simp add: scale_spline_def array_shape_def BPoly_new_def)
  next
    case (Cons row c)
    then have "length row = length (knots s) - 1" using rows by simp
    then have "array_shape (coefficients s) = [length (coefficients s), length (knots s) - 1]"
      by (simp add: array_shape_def Cons)
    then show ?thesis
      using reshape_rows[OF rows, of "jmul (Fin k)"]
      by (simp add: scale_spline_def BPoly_new_def multiply_scalar_def)
  qed
  have flat: "concat (coefficients (scale_spline s (Fin k)))
      = multiply_scalar (Fin k) (concat (coefficients s))"
    by (simp add: sc multiply_scalar_def map_concat)
  have mn: "BPoly_min (scale_spline s (Fin k)) = jmul (Fin k) (BPoly_min s)"
    by (simp add: BPoly_min_def flat array_min_scale[OF assms(2)])
  have mx: "BPoly_max (scale_spline s (Fin k)) = jmul (Fin k) (BPoly_max s)"
    by (simp add: BPoly_max_def flat array_max_scale[OF assms(2)])
  have kn: "knots (scale_spline s (Fin k)) = knots s"
    by (simp add: scale_spline_def BPoly_new_def Let_def)
  from dur co mn mx kn show ?thesis by simp
qed

text \<open>
  Stretching the example spline (duration 2) by 2 gives duration 4; scaling it
  (max 3) by 2 gives max 6.
\<close>

theorem stretch_scale_witness:
  "well_formed example_spline
   \<and> BPoly_duration (stretch_spline example_spline (Fin 2)) = Fin 4
   \<and> BPoly_max (scale_spline example_spline (Fin 2)) = Fin 6"
proof -
  have k: "(0::real) < 2" by simp
  show ?thesis
    using stretch_scale[OF example_spline_well_formed k] example_spline_well_formed
    by (simp add: example_spline_simps BPoly_duration_def BPoly_end_def BPoly_start_def
        last_element_def nth_js_def jsub_def BPoly_max_def array_max_def)
qed

text \<open>
  Claim C4. For a spline with finite knots whose first knot is at least 0, and an
  offset that is a finite number or \<^verbatim>\<open>-Infinity\<close>: the offset added to every knot is
  \<open>max(offset, -start)\<close>, a finite number; the new start is
  \<open>max(start + offset, 0)\<close>, so it is never before 0 and never before
  \<open>start + offset\<close> (the original start moved by the offset), and the shift to the
  left, \<open>start - new start\<close>, is at most the original start; the spacing of
  neighbouring knots and the coefficients are unchanged.
\<close>

theorem shift_spline_clamped:
  assumes "knots s \<noteq> []" and "list_all isFinite (knots s)"
    and "\<not> jless (BPoly_start s) (Fin 0)"
    and "off = NegInf \<or> isFinite off"
  shows "isFinite (Math_max off (jneg (BPoly_start s)))
     \<and> knots (shift_spline s off)
         = map (\<lambda>pos. jadd pos (Math_max off (jneg (BPoly_start s)))) (knots s)
     \<and> BPoly_start (shift_spline s off) = Math_max (jadd (BPoly_start s) off) (Fin 0)
     \<and> \<not> jless (BPoly_start (shift_spline s off)) (Fin 0)
     \<and> \<not> jless (BPoly_start (shift_spline s off)) (jadd (BPoly_start s) off)
     \<and> \<not> jless (BPoly_start s) (jsub (BPoly_start s) (BPoly_start (shift_spline s off)))
     \<and> (\<forall>i. Suc i < length (knots s) \<longrightarrow>
           jsub (nth_js (knots (shift_spline s off)) (Suc i)) (nth_js (knots (shift_spline s off)) i)
           = jsub (nth_js (knots s) (Suc i)) (nth_js (knots s) i))
     \<and> coefficients (shift_spline s off) = coefficients s"
proof -
  from assms(2) obtain ks where ks: "knots s = map Fin ks"
    using finite_list_obtain by blast
  with assms(1) obtain k0 kr where k0: "ks = k0 # kr" by (cases ks) auto
  have st: "BPoly_start s = Fin k0" by (simp add: BPoly_start_def nth_js_def ks k0)
  with assms(3) have pos: "0 \<le> k0" by simp
  obtain d where d: "Math_max off (jneg (BPoly_start s)) = Fin d" and dge: "- k0 \<le> d"
    and dmax: "Math_max (jadd (BPoly_start s) off) (Fin 0) = Fin (k0 + d)"
    and dlow: "\<not> jless (Fin (k0 + d)) (jadd (BPoly_start s) off)"
    using assms(4) by (cases off) (auto simp: st max_def)
  have kn: "knots (shift_spline s off) = map (\<lambda>pos. jadd pos (Fin d)) (knots s)"
    using d by (simp add: shift_spline_def BPoly_new_def BPoly_start_def Let_def)
  have kn': "knots (shift_spline s off) = map (\<lambda>p. Fin (p + d)) ks"
    by (simp add: kn ks)
  have st': "BPoly_start (shift_spline s off) = Fin (k0 + d)"
    by (simp add: BPoly_start_def kn' nth_js_def k0)
  have sp: "jsub (nth_js (knots (shift_spline s off)) (Suc i)) (nth_js (knots (shift_spline s off)) i)
           = jsub (nth_js (knots s) (Suc i)) (nth_js (knots s) i)"
    if "Suc i < length (knots s)" for i
    using that by (simp add: kn' ks nth_js_def jsub_def)
  have co: "coefficients (shift_spline s off) = coefficients s"
    by (simp add: shift_spline_def BPoly_new_def Let_def)
  show ?thesis
    using d kn dmax dlow dge pos sp co by (simp add: st' st jsub_def)
qed

text \<open>
  The example spline starts at 1; shifted by \<^verbatim>\<open>-Infinity\<close> (the button that removes
  the delay at the beginning) it starts at 0 and keeps its knot spacing of 2.
\<close>

theorem shift_spline_clamped_witness:
  "BPoly_start (shift_spline example_spline NegInf) = Fin 0
   \<and> knots (shift_spline example_spline NegInf) = [Fin 0, Fin 2]"
proof -
  have h: "knots example_spline \<noteq> []" "list_all isFinite (knots example_spline)"
    "\<not> jless (BPoly_start example_spline) (Fin 0)" "NegInf = NegInf \<or> isFinite NegInf"
    by (simp_all add: example_spline_simps BPoly_start_def nth_js_def)
  show ?thesis
    using shift_spline_clamped[OF h]
    by (simp add: example_spline_simps BPoly_start_def nth_js_def)
qed


section \<open>The viewport transform and its inverse\<close>

lemma jsub_eq_Fin:
  "jsub a b = Fin c \<Longrightarrow> \<exists>u v. a = Fin u \<and> b = Fin v \<and> c = u - v"
  by (cases a; cases b) (auto simp: jsub_def)

lemma jdiv_finite_nonzero:
  "isFinite (jdiv a b) \<Longrightarrow> jdiv a b \<noteq> Fin 0 \<Longrightarrow>
     \<exists>u v. a = Fin u \<and> b = Fin v \<and> u \<noteq> 0 \<and> v \<noteq> 0"
  by (cases a; cases b) (auto split: if_splits)

lemma nondegenerate_reals:
  assumes "nondegenerate this"
  obtains W H l b r t where
    "graph_clientWidth this = Fin W" "graph_clientHeight this = Fin H"
    "ll (viewport this) = (Fin l, Fin b)" "ur (viewport this) = (Fin r, Fin t)"
    "W \<noteq> 100" "H \<noteq> 100" "r \<noteq> l" "t \<noteq> b"
proof -
  let ?w = "jsub (graph_clientWidth this) (jmul (Fin 2) MARGIN)"
  let ?h = "jsub (graph_clientHeight this) (jmul (Fin 2) MARGIN)"
  from assms have x: "isFinite (jdiv ?w (BBox_width (viewport this)))"
      "jdiv ?w (BBox_width (viewport this)) \<noteq> Fin 0"
    and y: "isFinite (jdiv ?h (BBox_height (viewport this)))"
      "jdiv ?h (BBox_height (viewport this)) \<noteq> Fin 0"
    by (simp_all add: nondegenerate_def divide_arrays_def BBox_size_def Let_def)
  from jdiv_finite_nonzero[OF x] obtain a w where
    a: "?w = Fin a" "BBox_width (viewport this) = Fin w" "a \<noteq> 0" "w \<noteq> 0" by blast
  from jdiv_finite_nonzero[OF y] obtain c h where
    c: "?h = Fin c" "BBox_height (viewport this) = Fin h" "c \<noteq> 0" "h \<noteq> 0" by blast
  from jsub_eq_Fin[OF a(1)] obtain W where W: "graph_clientWidth this = Fin W" "a = W - 100"
    by (auto simp: MARGIN_def)
  from jsub_eq_Fin[OF c(1)] obtain H where H: "graph_clientHeight this = Fin H" "c = H - 100"
    by (auto simp: MARGIN_def)
  from jsub_eq_Fin[OF a(2)[unfolded BBox_width_def]] obtain r l where
    rl: "fst (ur (viewport this)) = Fin r" "fst (ll (viewport this)) = Fin l" "w = r - l" by blast
  from jsub_eq_Fin[OF c(2)[unfolded BBox_height_def]] obtain t b where
    tb: "snd (ur (viewport this)) = Fin t" "snd (ll (viewport this)) = Fin b" "h = t - b" by blast
  have "ll (viewport this) = (Fin l, Fin b)" "ur (viewport this) = (Fin r, Fin t)"
    using rl tb by (simp_all add: prod_eq_iff)
  moreover have "W \<noteq> 100" "H \<noteq> 100" "r \<noteq> l" "t \<noteq> b"
    using a c W H rl tb by auto
  ultimately show ?thesis using W H that by blast
qed

lemma update_trafo_reals:
  assumes "graph_clientWidth this = Fin W" "graph_clientHeight this = Fin H"
    "ll (viewport this) = (Fin l, Fin b)" "ur (viewport this) = (Fin r, Fin t)"
    "W \<noteq> 100" "H \<noteq> 100" "r \<noteq> l" "t \<noteq> b"
  shows "trafo (update_trafo this) =
      fromMatrix (Fin ((W - 100) / (r - l))) (Fin (- ((H - 100) / (t - b))))
        (Fin (- ((W - 100) / (r - l)) * l + 50))
        (Fin ((H - 100) / (t - b) * (b + (t - b)) + 50))"
    and "trafoInv (update_trafo this) = inverse_matrix (trafo (update_trafo this))"
    and "viewport (update_trafo this) = viewport this"
  using assms
  by (simp_all add: update_trafo_def divide_arrays_def BBox_size_def BBox_width_def
      BBox_height_def jsub_def MARGIN_def Let_def)

lemma viewport_update_trafo [simp]: "viewport (update_trafo this) = viewport this"
  by (simp add: update_trafo_def Let_def)

lemma sizes_update_trafo [simp]:
  "graph_clientWidth (update_trafo this) = graph_clientWidth this"
  "graph_clientHeight (update_trafo this) = graph_clientHeight this"
  "canvas_rect (update_trafo this) = canvas_rect this"
  "canvas_width (update_trafo this) = canvas_width this"
  by (simp_all add: update_trafo_def Let_def)

lemma affine_round_trip:
  assumes "sx \<noteq> 0" "sy \<noteq> 0"
  shows "matrixTransform (matrixTransform (Fin px, Fin py) (fromMatrix (Fin sx) (Fin sy) (Fin e) (Fin f)))
           (inverse_matrix (fromMatrix (Fin sx) (Fin sy) (Fin e) (Fin f))) = (Fin px, Fin py)"
    and "matrixTransform (matrixTransform (Fin px, Fin py)
           (inverse_matrix (fromMatrix (Fin sx) (Fin sy) (Fin e) (Fin f))))
           (fromMatrix (Fin sx) (Fin sy) (Fin e) (Fin f)) = (Fin px, Fin py)"
  using assms
  by (simp_all add: matrixTransform_def inverse_matrix_def fromMatrix_def jsub_def Let_def
      field_simps)

lemma example_curver_nondegenerate: "nondegenerate example_curver"
  by (simp add: nondegenerate_def example_curver_def divide_arrays_def BBox_size_def
      BBox_width_def BBox_height_def BBox_new_def jsub_def MARGIN_def)

text \<open>
  Claim C5. When \<^verbatim>\<open>update_trafo\<close> runs on a non-degenerate viewport, the stored
  transforms are inverse to each other on every finite point: the inverse map after
  the forward map, and the forward map after the inverse map, give the point back,
  and so does \<^verbatim>\<open>mouse_coordinates\<close> for a pointer at the pixel position of the
  point. The arithmetic is exact here, so no tolerance is needed.
\<close>

theorem transform_round_trip:
  assumes "nondegenerate this"
  shows "matrixTransform (transform_point (update_trafo this) (Fin px, Fin py))
           (trafoInv (update_trafo this)) = (Fin px, Fin py)
       \<and> transform_point (update_trafo this)
           (matrixTransform (Fin px, Fin py) (trafoInv (update_trafo this))) = (Fin px, Fin py)
       \<and> (\<forall>rx ry. canvas_rect this = (Fin rx, Fin ry) \<longrightarrow>
            mouse_coordinates (update_trafo this)
              \<lparr>clientX = jadd (fst (transform_point (update_trafo this) (Fin px, Fin py))) (Fin rx),
               clientY = jadd (snd (transform_point (update_trafo this) (Fin px, Fin py))) (Fin ry)\<rparr>
            = (Fin px, Fin py))"
proof -
  from assms obtain W H l b r t where v:
    "graph_clientWidth this = Fin W" "graph_clientHeight this = Fin H"
    "ll (viewport this) = (Fin l, Fin b)" "ur (viewport this) = (Fin r, Fin t)"
    "W \<noteq> 100" "H \<noteq> 100" "r \<noteq> l" "t \<noteq> b"
    by (rule nondegenerate_reals)
  let ?sx = "(W - 100) / (r - l)" and ?sy = "- ((H - 100) / (t - b))"
  let ?e = "- ((W - 100) / (r - l)) * l + 50" and ?f = "(H - 100) / (t - b) * (b + (t - b)) + 50"
  have nz: "?sx \<noteq> 0" "?sy \<noteq> 0" using v by simp_all
  note tr = update_trafo_reals(1,2)[OF v]
  note rt = affine_round_trip[OF nz, of _ _ ?e ?f]
  have fw: "matrixTransform (transform_point (update_trafo this) (Fin px, Fin py))
           (trafoInv (update_trafo this)) = (Fin px, Fin py)"
    unfolding transform_point_def tr by (rule rt(1))
  have bw: "transform_point (update_trafo this)
           (matrixTransform (Fin px, Fin py) (trafoInv (update_trafo this))) = (Fin px, Fin py)"
    unfolding transform_point_def tr by (rule rt(2))
  obtain qx qy where q: "transform_point (update_trafo this) (Fin px, Fin py) = (Fin qx, Fin qy)"
    unfolding transform_point_def tr by (simp add: matrixTransform_def fromMatrix_def)
  have ms: "mouse_coordinates (update_trafo this)
              \<lparr>clientX = jadd (fst (transform_point (update_trafo this) (Fin px, Fin py))) (Fin rx),
               clientY = jadd (snd (transform_point (update_trafo this) (Fin px, Fin py))) (Fin ry)\<rparr>
            = (Fin px, Fin py)" if "canvas_rect this = (Fin rx, Fin ry)" for rx ry
    using fw that by (simp add: mouse_coordinates_def q jsub_def Let_def)
  from fw bw ms show ?thesis by blast
qed

text \<open>
  In the example view the centre \<open>(1, 1/2)\<close> of the viewport is drawn at the pixel
  \<open>(150, 100)\<close>, and the inverse transform maps that pixel back.
\<close>

theorem transform_round_trip_witness:
  "nondegenerate example_curver
   \<and> transform_point (update_trafo example_curver) (Fin 1, Fin (1 / 2)) = (Fin 150, Fin 100)
   \<and> matrixTransform (Fin 150, Fin 100) (trafoInv (update_trafo example_curver))
       = (Fin 1, Fin (1 / 2))"
proof -
  have fw: "transform_point (update_trafo example_curver) (Fin 1, Fin (1 / 2)) = (Fin 150, Fin 100)"
    by (simp add: transform_point_def update_trafo_def example_curver_def divide_arrays_def
        BBox_size_def BBox_width_def BBox_height_def BBox_new_def jsub_def MARGIN_def
        fromMatrix_def matrixTransform_def Let_def)
  show ?thesis
    using transform_round_trip[OF example_curver_nondegenerate, of 1 "1 / 2"] fw
      example_curver_nondegenerate
    by simp
qed

lemma affine_at: "s * m + (- s * l + c) = s * (m - l) + (c::real)"
  by (simp add: algebra_simps)

text \<open>
  Claim C6. For a bounding box with finite horizontal bounds and a factor \<open>f > 0\<close>,
  \<^verbatim>\<open>zoom_bbox_in_place\<close> keeps the horizontal midpoint, divides the width by \<open>f\<close>
  and leaves the vertical bounds as they are; and in a view whose viewport is this box
  and is non-degenerate, the midpoint (at any height) is drawn at the same pixel
  before and after a click on a zoom button.
\<close>

theorem zoom_in_place:
  assumes "ll bbox = (Fin l, yl)" and "ur bbox = (Fin r, yu)" and "0 < f"
  shows "jmul (Fin (1 / 2)) (jadd (BBox_left (zoom_bbox_in_place bbox (Fin f)))
                                  (BBox_right (zoom_bbox_in_place bbox (Fin f))))
         = jmul (Fin (1 / 2)) (jadd (BBox_left bbox) (BBox_right bbox))
     \<and> BBox_width (zoom_bbox_in_place bbox (Fin f)) = jdiv (BBox_width bbox) (Fin f)
     \<and> snd (ll (zoom_bbox_in_place bbox (Fin f))) = snd (ll bbox)
     \<and> snd (ur (zoom_bbox_in_place bbox (Fin f))) = snd (ur bbox)
     \<and> (\<forall>this y. nondegenerate this \<and> viewport this = bbox \<longrightarrow>
           transform_point (zoom_click (Fin f) (update_trafo this))
             (jmul (Fin (1 / 2)) (jadd (BBox_left bbox) (BBox_right bbox)), Fin y)
           = transform_point (update_trafo this)
             (jmul (Fin (1 / 2)) (jadd (BBox_left bbox) (BBox_right bbox)), Fin y))"
proof -
  let ?m = "(l + r) / 2"
  have z: "zoom_bbox_in_place bbox (Fin f) =
      \<lparr>ll = (Fin (1 / f * (l - ?m) + ?m), yl), ur = (Fin (1 / f * (r - ?m) + ?m), yu)\<rparr>"
    using assms
    by (simp add: zoom_bbox_in_place_def BBox_left_def BBox_right_def BBox_set_left_def
        BBox_set_right_def jsub_def Let_def)
  have mid: "jmul (Fin (1 / 2)) (jadd (BBox_left bbox) (BBox_right bbox)) = Fin ?m"
    using assms by (simp add: BBox_left_def BBox_right_def)
  have mid': "jmul (Fin (1 / 2)) (jadd (BBox_left (zoom_bbox_in_place bbox (Fin f)))
                                  (BBox_right (zoom_bbox_in_place bbox (Fin f)))) = Fin ?m"
    using assms(3) by (simp add: z BBox_left_def BBox_right_def field_simps)
  have wd: "BBox_width (zoom_bbox_in_place bbox (Fin f)) = jdiv (BBox_width bbox) (Fin f)"
    using assms by (simp add: z BBox_width_def jsub_def field_simps)
  have vert: "snd (ll (zoom_bbox_in_place bbox (Fin f))) = snd (ll bbox)"
    "snd (ur (zoom_bbox_in_place bbox (Fin f))) = snd (ur bbox)"
    using assms by (simp_all add: z)
  have px: "transform_point (zoom_click (Fin f) (update_trafo this)) (Fin ?m, Fin y)
           = transform_point (update_trafo this) (Fin ?m, Fin y)"
    if nd: "nondegenerate this" and vp: "viewport this = bbox" for this :: "'a CurverBase_scheme" and y
  proof -
    from nd obtain W H l' b r' t where v:
      "graph_clientWidth this = Fin W" "graph_clientHeight this = Fin H"
      "ll (viewport this) = (Fin l', Fin b)" "ur (viewport this) = (Fin r', Fin t)"
      "W \<noteq> 100" "H \<noteq> 100" "r' \<noteq> l'" "t \<noteq> b"
      by (rule nondegenerate_reals)
    with vp assms have eq: "l' = l" "r' = r" "yl = Fin b" "yu = Fin t" by simp_all
    have rl: "r \<noteq> l" using v eq by simp
    let ?this' = "(update_trafo this)\<lparr>viewport := zoom_bbox_in_place bbox (Fin f)\<rparr>"
    have v': "graph_clientWidth ?this' = Fin W" "graph_clientHeight ?this' = Fin H"
      "ll (viewport ?this') = (Fin (1 / f * (l - ?m) + ?m), Fin b)"
      "ur (viewport ?this') = (Fin (1 / f * (r - ?m) + ?m), Fin t)"
      using v eq by (simp_all add: z)
    have ne: "1 / f * (r - ?m) + ?m \<noteq> 1 / f * (l - ?m) + ?m"
      using rl assms(3) by (simp add: field_simps)
    note t1 = update_trafo_reals(1)[OF v]
    note t2 = update_trafo_reals(1)[OF v' v(5,6) ne v(8)]
    define a where "a = W - 100"
    define l2 where "l2 = 1 / f * (l - ?m) + ?m"
    define r2 where "r2 = 1 / f * (r - ?m) + ?m"
    have w2: "r2 - l2 = (r - l) / f"
      unfolding l2_def r2_def using assms(3) by (simp add: field_simps)
    have m2: "?m - l2 = (r - l) / (2 * f)"
      unfolding l2_def using assms(3) by (simp add: field_simps)
    have "a / (r2 - l2) * ?m + (- (a / (r2 - l2)) * l2 + 50) = a / (r2 - l2) * (?m - l2) + 50"
      by (rule affine_at)
    also have "\<dots> = a / 2 + 50"
      unfolding w2 m2 using rl assms(3) by simp
    also have "a / 2 + 50 = a / (r - l) * (?m - l) + 50"
    proof -
      have "?m - l = (r - l) / 2" by (simp add: field_simps)
      moreover have "r - l \<noteq> 0" using rl by simp
      ultimately show ?thesis by simp
    qed
    also have "\<dots> = a / (r - l) * ?m + (- (a / (r - l)) * l + 50)"
      by (rule affine_at[symmetric])
    finally have key: "a / (r2 - l2) * ?m + (- (a / (r2 - l2)) * l2 + 50)
        = a / (r - l) * ?m + (- (a / (r - l)) * l + 50)" .
    define Y where "Y = - ((H - 100) / (t - b)) * y + ((H - 100) / (t - b) * (b + (t - b)) + 50)"
    have zc: "zoom_click (Fin f) (update_trafo this) = update_trafo ?this'"
      by (simp add: zoom_click_def vp)
    have lhs: "transform_point (update_trafo ?this') (Fin ?m, Fin y)
        = (Fin (a / (r2 - l2) * ?m + (- (a / (r2 - l2)) * l2 + 50)), Fin Y)"
      unfolding transform_point_def t2
      by (simp add: matrixTransform_def fromMatrix_def a_def l2_def r2_def Y_def)
    have rhs: "transform_point (update_trafo this) (Fin ?m, Fin y)
        = (Fin (a / (r - l) * ?m + (- (a / (r - l)) * l + 50)), Fin Y)"
      unfolding transform_point_def t1
      by (simp add: matrixTransform_def fromMatrix_def a_def eq Y_def)
    show ?thesis by (simp only: zc lhs rhs key)
  qed
  from mid' wd vert px show ?thesis unfolding mid by blast
qed

text \<open>
  Zooming the example viewport (width 2) by 3/2 gives width 4/3 and keeps the pixel of
  its midpoint.
\<close>

theorem zoom_in_place_witness:
  "BBox_width (zoom_bbox_in_place (BBox_new (Fin 0, Fin 0) (Fin 2, Fin 1)) (Fin (3 / 2))) = Fin (4 / 3)
   \<and> transform_point (zoom_click (Fin (3 / 2)) (update_trafo example_curver)) (Fin 1, Fin 0)
       = transform_point (update_trafo example_curver) (Fin 1, Fin 0)"
proof -
  have h: "ll (BBox_new (Fin 0, Fin 0) (Fin 2, Fin 1)) = (Fin 0, Fin 0)"
    "ur (BBox_new (Fin 0, Fin 0) (Fin 2, Fin 1)) = (Fin 2, Fin 1)" "(0::real) < 3 / 2"
    by (simp_all add: BBox_new_def)
  have vp: "viewport example_curver = BBox_new (Fin 0, Fin 0) (Fin 2, Fin 1)"
    by (simp add: example_curver_def)
  note z = zoom_in_place[OF h]
  from z have w: "BBox_width (zoom_bbox_in_place (BBox_new (Fin 0, Fin 0) (Fin 2, Fin 1)) (Fin (3 / 2)))
      = jdiv (BBox_width (BBox_new (Fin 0, Fin 0) (Fin 2, Fin 1))) (Fin (3 / 2))"
    by blast
  from z example_curver_nondegenerate vp
  have px: "transform_point (zoom_click (Fin (3 / 2)) (update_trafo example_curver))
       (jmul (Fin (1 / 2)) (jadd (BBox_left (BBox_new (Fin 0, Fin 0) (Fin 2, Fin 1)))
                                 (BBox_right (BBox_new (Fin 0, Fin 0) (Fin 2, Fin 1)))), Fin 0)
     = transform_point (update_trafo example_curver)
       (jmul (Fin (1 / 2)) (jadd (BBox_left (BBox_new (Fin 0, Fin 0) (Fin 2, Fin 1)))
                                 (BBox_right (BBox_new (Fin 0, Fin 0) (Fin 2, Fin 1)))), Fin 0)"
    by blast
  from w px show ?thesis
    by (simp add: BBox_new_def BBox_width_def BBox_left_def BBox_right_def jsub_def)
qed


section \<open>Pan and zoom by dragging\<close>






section \<open>Stopping the playback\<close>

lemma stop_spline_playback_paused:
  "Transport_paused (transport this) \<Longrightarrow> stop_spline_playback resp this = this"
  by (simp add: stop_spline_playback_def)

lemma fold_stop_spline_playback_paused:
  "Transport_paused (transport this) \<Longrightarrow> fold stop_spline_playback resps this = this"
  by (induction resps) (simp_all add: stop_spline_playback_paused)

lemma example_editor_simps:
  "store example_editor = example_store"
  "history example_editor = \<lparr>snapshots = [example_snapshot], cursor = 0\<rparr>"
  "transport example_editor =
     \<lparr>state = PLAYING, position = Fin 0, duration = Fin 1, looping = False, startTime = Fin 10\<rparr>"
  "limitBtn_checked example_editor = True"
  "motor_lengths example_editor = [Fin 1]"
  "requests example_editor = []"
  "lines example_editor = []"
  "outputIndices example_editor = []"
  "viewport example_editor = BBox_new (Fin 0, Fin 0) (Fin 2, Fin 1)"
  by (simp_all add: example_editor_def CurverBase.extend_def Editor.fields_def example_curver_def)

text \<open>
  Claim C10. When the transport is Paused, \<^verbatim>\<open>stop_spline_playback\<close> changes nothing:
  no request is sent, and the editor (transport, toolbar and all) is the same after
  the call, and after any number of calls. When the transport is not Paused, the call
  sends one stop request, and once the request is answered the transport is Paused
  and the toolbar shows it.
\<close>

theorem stop_spline_playback_guarded:
  "(Transport_paused (transport this) \<longrightarrow>
       stop_spline_playback_request this = this
     \<and> stop_spline_playback resp this = this
     \<and> fold stop_spline_playback resps this = this)
   \<and> (\<not> Transport_paused (transport this) \<longrightarrow>
       requests (stop_spline_playback resp this) = requests this @ [StopSplinePlayback]
     \<and> (\<forall>v. resp = Resolved v \<longrightarrow>
           state (transport (stop_spline_playback resp this)) = PAUSED
         \<and> shown_state (toolbar (stop_spline_playback resp this)) = PAUSED))"
proof (intro conjI impI allI)
  assume p: "Transport_paused (transport this)"
  then show "stop_spline_playback_request this = this"
    by (simp add: stop_spline_playback_request_def)
  from p show "stop_spline_playback resp this = this"
    by (rule stop_spline_playback_paused)
  from p show "fold stop_spline_playback resps this = this"
    by (rule fold_stop_spline_playback_paused)
next
  assume np: "\<not> Transport_paused (transport this)"
  then show "requests (stop_spline_playback resp this) = requests this @ [StopSplinePlayback]"
    by (cases resp)
      (simp_all add: stop_spline_playback_def stop_spline_playback_request_def
        stop_spline_playback_resume_def update_ui_def)
  fix v assume "resp = Resolved v"
  with np show "state (transport (stop_spline_playback resp this)) = PAUSED"
    by (simp add: stop_spline_playback_def stop_spline_playback_request_def
        stop_spline_playback_resume_def update_ui_def Transport_pause_def)
  from np \<open>resp = Resolved v\<close>
  show "shown_state (toolbar (stop_spline_playback resp this)) = PAUSED"
    by (simp add: stop_spline_playback_def stop_spline_playback_request_def
        stop_spline_playback_resume_def update_ui_def Transport_pause_def)
qed

text \<open>
  The example editor is Playing: the first call sends the stop request and pauses the
  transport, a second call changes nothing.
\<close>

theorem stop_spline_playback_guarded_witness:
  "\<not> Transport_paused (transport example_editor)
   \<and> requests (stop_spline_playback (Resolved (Fin 0)) example_editor) = [StopSplinePlayback]
   \<and> Transport_paused (transport (stop_spline_playback (Resolved (Fin 0)) example_editor))
   \<and> stop_spline_playback (Resolved (Fin 0)) (stop_spline_playback (Resolved (Fin 0)) example_editor)
       = stop_spline_playback (Resolved (Fin 0)) example_editor"
proof -
  have np: "\<not> Transport_paused (transport example_editor)"
    by (simp add: Transport_paused_def example_editor_simps)
  from stop_spline_playback_guarded[of example_editor "Resolved (Fin 0)" "[]"] np
  have 1: "requests (stop_spline_playback (Resolved (Fin 0)) example_editor) = [StopSplinePlayback]"
    and 2: "state (transport (stop_spline_playback (Resolved (Fin 0)) example_editor)) = PAUSED"
    by (simp_all add: example_editor_simps)
  from 2 have p: "Transport_paused (transport (stop_spline_playback (Resolved (Fin 0)) example_editor))"
    by (simp add: Transport_paused_def)
  from stop_spline_playback_guarded[of "stop_spline_playback (Resolved (Fin 0)) example_editor"
      "Resolved (Fin 0)" "[]"] p
  have 3: "stop_spline_playback (Resolved (Fin 0)) (stop_spline_playback (Resolved (Fin 0)) example_editor)
       = stop_spline_playback (Resolved (Fin 0)) example_editor"
    by simp
  from np 1 p 3 show ?thesis by simp
qed

lemma Transport_move_state:
  "state (snd (Transport_move ts tr)) = state tr"
  "duration (snd (Transport_move ts tr)) = duration tr"
  by (simp_all add: Transport_move_def Let_def)

text \<open>
  Claim C2. A data tick that arrives while the transport is Playing and whose mapped
  position \<open>t = transport.move(timestamp)\<close> exceeds the duration leaves the
  transport Paused when \<^verbatim>\<open>new_data\<close> returns, looping or not (with looping disabled
  in particular); and a behavior notice with \<open>active = true\<close> leaves the transport
  Paused, whatever its state was.
\<close>

theorem transport_stops:
  "(state (transport this) = PLAYING
      \<and> jgreater (fst (Transport_move (msg_timestamp msg) (transport this))) (duration (transport this))
     \<longrightarrow> (\<exists>this'. new_data append_data msg this = Inr this' \<and> state (transport this') = PAUSED))
   \<and> state (transport (new_behavior_message True this)) = PAUSED"
proof (intro conjI impI)
  assume a: "state (transport this) = PLAYING
      \<and> jgreater (fst (Transport_move (msg_timestamp msg) (transport this))) (duration (transport this))"
  obtain t tr where m: "Transport_move (msg_timestamp msg) (transport this) = (t, tr)"
    by (cases "Transport_move (msg_timestamp msg) (transport this)")
  from Transport_move_state[of "msg_timestamp msg" "transport this"] m a
  have tr: "state tr = PLAYING" "duration tr = duration (transport this)" "jgreater t (duration tr)"
    by simp_all
  show "\<exists>this'. new_data append_data msg this = Inr this' \<and> state (transport this') = PAUSED"
    using tr
    by (simp add: new_data_def m Transport_playing_def Transport_paused_def
        Transport_recording_def Transport_stop_def update_ui_def Let_def)
next
  show "state (transport (new_behavior_message True this)) = PAUSED"
    by (simp add: new_behavior_message_def Transport_stop_def update_ui_def)
qed

text \<open>
  The example editor plays a spline of duration 1 since the time 10; the tick of the
  time 12 is mapped to 2 and stops it.
\<close>

theorem transport_stops_witness:
  "jgreater (fst (Transport_move (Fin 12) (transport example_editor))) (duration (transport example_editor))
   \<and> (\<exists>this'. new_data (\<lambda>line p. line) \<lparr>msg_timestamp = Fin 12, msg_values = []\<rparr> example_editor = Inr this'
         \<and> state (transport this') = PAUSED)"
proof -
  have g: "jgreater (fst (Transport_move (Fin 12) (transport example_editor))) (duration (transport example_editor))"
    by (simp add: Transport_move_def Transport_playing_def example_editor_simps jsub_def jgreater_def Let_def)
  have s: "state (transport example_editor) = PLAYING" by (simp add: example_editor_simps)
  from transport_stops[of example_editor "\<lparr>msg_timestamp = Fin 12, msg_values = []\<rparr>" "\<lambda>line p. line"] g s
  show ?thesis by simp
qed


section \<open>Copies, shared arrays and history snapshots\<close>

lemma example_snapshot_simps:
  "c_ref example_snapshot = 0" "x_ref example_snapshot = 1"
  "ref_order example_snapshot = length (coefficient_arrays example_store (c_ref example_snapshot))"
  "ref_degree example_snapshot = int (length (coefficient_arrays example_store (c_ref example_snapshot))) - 1"
  "next_array example_store = 2"
  "coefficient_arrays example_store 0 = [[Fin 2], [Fin 2], [Fin 2], [Fin 2]]"
  "knot_arrays example_store 1 = [Fin 0, Fin 1]"
  "knot_arrays example_store (Suc 0) = [Fin 0, Fin 1]"
  by (simp_all add: example_snapshot_def example_store_def BPolyRef_new_def)

text \<open>
  Claim C9. For a spline object whose arrays are in the store and whose order and
  degree are those the constructor set, \<^verbatim>\<open>copy()\<close> returns an object that denotes
  the same spline (so its bounding box is the same) and leaves the original as it
  was; whatever is written afterwards into the knot or coefficient array of the copy,
  the original denotes the same spline, and whatever is written into an array of the
  original, so does the copy.
\<close>

theorem copy_isolated:
  assumes "c_ref s < next_array st" and "x_ref s < next_array st"
    and "ref_order s = length (coefficient_arrays st (c_ref s))"
    and "ref_degree s = int (length (coefficient_arrays st (c_ref s))) - 1"
  shows "case BPoly_copy s st of (s', st') \<Rightarrow>
      deref st' s' = deref st s
    \<and> BPoly_bbox (deref st' s') = BPoly_bbox (deref st s)
    \<and> deref st' s = deref st s
    \<and> (\<forall>arr. deref (mutate_coefficients (c_ref s') arr st') s = deref st s)
    \<and> (\<forall>arr. deref (mutate_knots (x_ref s') arr st') s = deref st s)
    \<and> (\<forall>arr. deref (mutate_coefficients (c_ref s) arr st') s' = deref st s)
    \<and> (\<forall>arr. deref (mutate_knots (x_ref s) arr st') s' = deref st s)"
proof -
  define s' where "s' = fst (BPoly_copy s st)"
  define st' where "st' = snd (BPoly_copy s st)"
  have refs: "c_ref s' = next_array st" "x_ref s' = Suc (next_array st)"
    by (simp_all add: s'_def BPoly_copy_def new_coefficient_array_def new_knot_array_def
        BPolyRef_new_def)
  have arrs: "coefficient_arrays st' = (coefficient_arrays st)(next_array st := coefficient_arrays st (c_ref s))"
    "knot_arrays st' = (knot_arrays st)(Suc (next_array st) := knot_arrays st (x_ref s))"
    by (simp_all add: st'_def BPoly_copy_def new_coefficient_array_def new_knot_array_def)
  have ne: "c_ref s \<noteq> next_array st" "x_ref s \<noteq> Suc (next_array st)"
    using assms(1,2) by simp_all
  have fields: "ref_extrapolate s' = ref_extrapolate s" "ref_axis s' = ref_axis s"
    "ref_order s' = ref_order s" "ref_degree s' = ref_degree s"
    using assms(3,4)
    by (simp_all add: s'_def BPoly_copy_def new_coefficient_array_def new_knot_array_def
        BPolyRef_new_def)
  have eq: "deref st' s' = deref st s"
    by (simp add: deref_def refs arrs fields)
  have keep: "deref st' s = deref st s"
    using ne by (simp add: deref_def arrs)
  have m1: "deref (mutate_coefficients (c_ref s') arr st') s = deref st s" for arr
    using ne by (simp add: deref_def mutate_coefficients_def refs arrs)
  have m2: "deref (mutate_knots (x_ref s') arr st') s = deref st s" for arr
    using ne by (simp add: deref_def mutate_knots_def refs arrs)
  have m3: "deref (mutate_coefficients (c_ref s) arr st') s' = deref st s" for arr
    using ne by (simp add: deref_def mutate_coefficients_def refs arrs fields)
  have m4: "deref (mutate_knots (x_ref s) arr st') s' = deref st s" for arr
    using ne by (simp add: deref_def mutate_knots_def refs arrs fields)
  have "BPoly_copy s st = (s', st')" by (simp add: s'_def st'_def)
  with eq keep m1 m2 m3 m4 show ?thesis by simp
qed

text \<open>
  The copy of the example snapshot takes the new arrays 2 and 3; overwriting the knots
  of the copy leaves the snapshot as it was.
\<close>

theorem copy_isolated_witness:
  "c_ref (fst (BPoly_copy example_snapshot example_store)) = 2
   \<and> x_ref (fst (BPoly_copy example_snapshot example_store)) = 3
   \<and> deref (snd (BPoly_copy example_snapshot example_store)) (fst (BPoly_copy example_snapshot example_store))
       = deref example_store example_snapshot
   \<and> deref (mutate_knots 3 [Fin 5] (snd (BPoly_copy example_snapshot example_store))) example_snapshot
       = deref example_store example_snapshot"
proof -
  have h: "c_ref example_snapshot < next_array example_store"
    "x_ref example_snapshot < next_array example_store"
    by (simp_all add: example_snapshot_simps)
  have r: "c_ref (fst (BPoly_copy example_snapshot example_store)) = 2"
    "x_ref (fst (BPoly_copy example_snapshot example_store)) = 3"
    by (simp_all add: BPoly_copy_def new_coefficient_array_def new_knot_array_def
        BPolyRef_new_def example_snapshot_simps)
  from copy_isolated[OF h example_snapshot_simps(3,4)] r show ?thesis
    by (simp add: case_prod_beta)
qed

lemma deref_scale_spline_ref:
  "deref (snd (scale_spline_ref s k st)) (fst (scale_spline_ref s k st)) = scale_spline (deref st s) k"
  by (simp add: scale_spline_ref_def new_coefficient_array_def BPolyRef_new_def deref_def
      scale_spline_def BPoly_new_def Let_def)

lemma deref_stretch_spline_ref:
  "deref (snd (stretch_spline_ref s k st)) (fst (stretch_spline_ref s k st)) = stretch_spline (deref st s) k"
  by (simp add: stretch_spline_ref_def new_knot_array_def BPolyRef_new_def deref_def
      stretch_spline_def BPoly_new_def Let_def)

lemma deref_shift_spline_ref:
  "deref (snd (shift_spline_ref s k st)) (fst (shift_spline_ref s k st)) = shift_spline (deref st s) k"
  by (simp add: shift_spline_ref_def new_knot_array_def BPolyRef_new_def deref_def
      shift_spline_def BPoly_new_def Let_def)

lemma transforms_share_arrays:
  "x_ref (fst (scale_spline_ref s k st)) = x_ref s"
  "c_ref (fst (stretch_spline_ref s k st)) = c_ref s"
  "c_ref (fst (shift_spline_ref s k st)) = c_ref s"
  by (simp_all add: scale_spline_ref_def stretch_spline_ref_def shift_spline_ref_def
      new_coefficient_array_def new_knot_array_def BPolyRef_new_def Let_def)

lemma retrieve_capture: "retrieve (capture x h) = Some x"
  by (simp add: retrieve_def capture_def Let_def del: length_take)

lemma spline_changing_frame:
  "store (spline_changing None this) = store this"
  "history (spline_changing None this) = history this"
  "limitBtn_checked (spline_changing None this) = limitBtn_checked this"
  "motor_lengths (spline_changing None this) = motor_lengths this"
  by (simp_all add: spline_changing_def stop_spline_playback_request_def Let_def)

lemma draw_current_spline_frame:
  assumes "retrieve (history this) = Some cur"
  shows "\<exists>this'. draw_current_spline this = Inr this' \<and> store this' = store this
           \<and> history this' = history this"
  using assms by (simp add: draw_current_spline_def update_ui_def update_trafo_def Let_def)

text \<open>
  What a click on one of the seven buttons does to the arrays that were in the store
  before: the transform writes none of them, and the store after the click is the
  one that \<^verbatim>\<open>restrict_to_bbox\<close> leaves, called on a working copy that holds an
  array of the snapshot. Whether a snapshot in the history changes is decided by that
  method alone.
\<close>

lemma apply_tool_keeps_arrays:
  assumes "a < next_array st"
  shows "coefficient_arrays (snd (apply_tool tool s st)) a = coefficient_arrays st a"
    and "knot_arrays (snd (apply_tool tool s st)) a = knot_arrays st a"
  using assms
  by (cases tool;
      simp add: apply_tool_def scale_spline_ref_def stretch_spline_ref_def shift_spline_ref_def
        new_coefficient_array_def new_knot_array_def Let_def)+

lemma apply_tool_keeps_snapshot:
  assumes "c_ref snap < next_array st" and "x_ref snap < next_array st"
  shows "deref (snd (apply_tool tool s st)) snap = deref st snap"
  using apply_tool_keeps_arrays[OF assms(1)] apply_tool_keeps_arrays[OF assms(2)]
  by (simp add: deref_def)

lemma apply_tool_shares_array:
  "c_ref (fst (apply_tool tool s st)) = c_ref s \<or> x_ref (fst (apply_tool tool s st)) = x_ref s"
  by (cases tool) (simp_all add: apply_tool_def transforms_share_arrays)

lemma tool_click_store:
  assumes "History_length (history this) \<noteq> 0" and "retrieve (history this) = Some cur"
  shows "\<exists>this'. tool_click restrict_to_bbox tool this = Inr this'
     \<and> store this' = snd (restrict_to_bbox (limits this) (fst (apply_tool tool cur (store this)))
                             (snd (apply_tool tool cur (store this))))
     \<and> history this' = capture (fst (restrict_to_bbox (limits this)
                                        (fst (apply_tool tool cur (store this)))
                                        (snd (apply_tool tool cur (store this)))))
                          (history this)"
proof -
  obtain newSpline st where a: "apply_tool tool cur (store this) = (newSpline, st)"
    by (cases "apply_tool tool cur (store this)")
  let ?this1 = "(spline_changing None this)\<lparr>store := st\<rparr>"
  obtain workingCopy st' where r: "restrict_to_bbox (limits this) newSpline st = (workingCopy, st')"
    by (cases "restrict_to_bbox (limits this) newSpline st")
  let ?this2 = "?this1\<lparr>store := st', history := capture workingCopy (history ?this1)\<rparr>"
  have "retrieve (history ?this2) = Some workingCopy" by (simp add: retrieve_capture)
  from draw_current_spline_frame[OF this] obtain this' where
    d: "draw_current_spline ?this2 = Inr this'" "store this' = store ?this2"
      "history this' = history ?this2" by blast
  have l: "limits ?this1 = limits this"
    by (simp add: limits_def spline_changing_frame)
  have "tool_click restrict_to_bbox tool this = Inr this'"
    using assms d(1)
    by (simp add: tool_click_def spline_changing_frame a spline_changed_def l r Let_def)
  moreover have "store this' = st'"
    using d(2) by simp
  moreover have "history this' = capture workingCopy (history this)"
    using d(3) by (simp add: spline_changing_frame)
  ultimately show ?thesis by (simp add: a r)
qed

end
